theory Spec2Isabelle
  imports Complex_Main "HOL-Library.AList" "HOL-Library.Char_ord" "HOL-Library.List_Lexorder"
    "HOL-Library.Multiset" "HOL-Library.Sublist"
begin

chapter \<open>Green-view route planner: embedding of the routing engine\<close>

section \<open>Rendering of identifiers in template strings\<close>

text \<open>
  Template literals and \<open>Array.prototype.join\<close> render an integer in decimal, with a
  leading minus sign for negative values.
\<close>

definition digit_char :: "nat \<Rightarrow> char" where
  "digit_char d = char_of (48 + d)"

fun string_of_nat :: "nat \<Rightarrow> string" where
  "string_of_nat n =
     (if n < 10 then [digit_char n] else string_of_nat (n div 10) @ [digit_char (n mod 10)])"

declare string_of_nat.simps [simp del]

definition string_of_int :: "int \<Rightarrow> string" where
  "string_of_int i = (if i < 0 then CHR ''-'' # string_of_nat (nat (- i)) else string_of_nat (nat i))"

text \<open>The number that a string of decimal digits denotes; it reads \<open>string_of_nat\<close> back.\<close>

definition digits_value :: "string \<Rightarrow> nat" where
  "digits_value s = foldl (\<lambda>n c. 10 * n + (of_char c - 48)) 0 s"

section \<open>Transit feed client (sl\_api\_service.js)\<close>

record line_info =
  line_id :: "int option"
  line_designation :: string
  transport_mode :: string

text \<open>
  A departure as the feed delivers it. The fields read through \<open>?.\<close> in the source may be
  absent, which is \<open>None\<close> here; \<open>expected\<close> is the timestamp in milliseconds.
\<close>

record departure =
  journey_id :: "int option"
  dep_line :: "line_info option"
  direction_code :: "int option"
  stop_point_id :: "int option"
  stop_point_name :: string
  expected :: int
  destination :: string

text \<open>
  The body of a response: \<open>NoData\<close> is a missing body (reading \<open>.departures\<close> from it
  throws), \<open>Data None\<close> a body without a \<open>departures\<close> property.
\<close>

datatype response_data = NoData | Data "departure list option"

text \<open>
  What \<open>axios.get\<close> does with a request: it rejects (network error, or a status that
  axios does not accept), or it resolves with a status and a body.
\<close>

datatype axios_outcome = Rejected | Resolved nat response_data

text \<open>
  The upstream feed: the outcome of the \<open>n\<close>-th request of a batch for a URL. Two
  requests for the same URL may be answered differently.
\<close>

type_synonym feed = "nat \<Rightarrow> string \<Rightarrow> axios_outcome"

definition baseUrl :: string where
  "baseUrl = ''https://transport.integration.sl.se/v1''"

text \<open>The URL that \<open>getDepartures\<close> builds; \<open>forecast\<close> is the constant 1200.\<close>

definition departures_url :: "int \<Rightarrow> int \<Rightarrow> string" where
  "departures_url siteId forecastLimit =
     (let forecast = 1200 :: int
      in baseUrl @ ''/sites/'' @ string_of_int siteId @ ''/departures?forecast='' @ string_of_int forecast)"

definition is_bus :: "departure \<Rightarrow> bool" where
  "is_bus dep = (case dep_line dep of None \<Rightarrow> False | Some l \<Rightarrow> transport_mode l = ''BUS'')"

text \<open>
  \<open>getDepartures\<close>: every exception (a rejected request, a status other than 200, a
  missing body) is caught and turned into the empty list. \<open>n\<close> is the index of the
  request in the feed.
\<close>

definition getDepartures :: "feed \<Rightarrow> nat \<Rightarrow> int \<Rightarrow> int \<Rightarrow> departure list" where
  "getDepartures api n siteId forecastLimit =
     (case api n (departures_url siteId forecastLimit) of
        Rejected \<Rightarrow> []
      | Resolved status body \<Rightarrow>
          if status = 200 then
            (case body of
               NoData \<Rightarrow> []
             | Data None \<Rightarrow> []
             | Data (Some deps) \<Rightarrow> filter is_bus deps)
          else [])"

text \<open>A request for a site fails when it is rejected, or answered with another status
  than 200, or with no body.\<close>

definition request_failed :: "axios_outcome \<Rightarrow> bool" where
  "request_failed r =
     (case r of Rejected \<Rightarrow> True
      | Resolved status body \<Rightarrow> status \<noteq> 200 \<or> body = NoData)"

text \<open>
  \<open>getBatchDepartures\<close>: the loop over the site ids, in input order. The result is a
  JavaScript \<open>Map\<close>: \<open>set\<close> replaces the value of a key already present and appends a new
  key, which is \<open>AList.update\<close>. Since \<open>getDepartures\<close> has no throwing
  path, the \<open>catch\<close> of the loop body (which stores the empty list) is never taken.
\<close>

fun batch_loop :: "feed \<Rightarrow> int \<Rightarrow> nat \<Rightarrow> int list \<Rightarrow> (int \<times> departure list) list
    \<Rightarrow> (int \<times> departure list) list" where
  "batch_loop api forecastLimit i [] results = results"
| "batch_loop api forecastLimit i (siteId # rest) results =
     batch_loop api forecastLimit (Suc i) rest
       (AList.update siteId (getDepartures api i siteId forecastLimit) results)"

definition getBatchDepartures :: "feed \<Rightarrow> int list \<Rightarrow> int \<Rightarrow> (int \<times> departure list) list" where
  "getBatchDepartures api siteIds forecastLimit = batch_loop api forecastLimit 0 siteIds []"

text \<open>A bus departure, used to run the batch loader on concrete feeds.\<close>

definition bus_dep :: departure where
  "bus_dep = \<lparr>journey_id = Some 7,
     dep_line = Some \<lparr>line_id = Some 4, line_designation = ''4'', transport_mode = ''BUS''\<rparr>,
     direction_code = Some 1, stop_point_id = Some 10, stop_point_name = ''A'', expected = 0,
     destination = ''B''\<rparr>"

section \<open>DGVI evaluator (dgvi\_calculator.js)\<close>

text \<open>
  Columns of type \<open>DOUBLE PRECISION\<close> are real numbers here, and a nullable column is an
  \<open>option\<close> with \<open>None\<close> for \<open>NULL\<close>.

  The geometry of the store is not part of the model: \<open>buffer_hit r p\<close> says that GVI point
  \<open>p\<close> intersects the 1-meter geographic buffer of the geometry of road \<open>r\<close>
  (\<open>ST_Intersects(ST_Buffer(geom::geography, 1)::geometry, g.geometry)\<close>), and
  \<open>line_locate r p\<close> is \<open>ST_LineLocatePoint\<close> of the point on the merged line of the road.
  \<open>query_error r m\<close> says that the query for road \<open>r\<close> and month \<open>m\<close> throws, and
  \<open>within_200m r x y\<close> that road \<open>r\<close> is within 200 meters of the point of longitude
  \<open>x\<close> and latitude \<open>y\<close> (\<open>ST_DWithin\<close>).
\<close>

record gvi_point =
  gp_id :: nat
  gp_month :: string
  gp_gvi :: "real option"

record spatial_store =
  roads :: "(int \<times> real option) list"
  gvi_points :: "gvi_point list"
  buffer_hit :: "int \<Rightarrow> nat \<Rightarrow> bool"
  line_locate :: "int \<Rightarrow> nat \<Rightarrow> real"
  query_error :: "int \<Rightarrow> string \<Rightarrow> bool"
  within_200m :: "int \<Rightarrow> real \<Rightarrow> real \<Rightarrow> bool"

text \<open>\<open>SUM\<close> skips \<open>NULL\<close>s and is \<open>NULL\<close> when no value is left.\<close>

definition sql_sum :: "real option list \<Rightarrow> real option" where
  "sql_sum vs = (let xs = [x. Some x \<leftarrow> vs] in if xs = [] then None else Some (sum_list xs))"

text \<open>The CTE \<open>matched_gvi_points\<close>: pairs (position, gvi\_value).\<close>

definition matched_gvi_points :: "spatial_store \<Rightarrow> int \<Rightarrow> string \<Rightarrow> (real \<times> real) list" where
  "matched_gvi_points db roadId month =
     (case map_of (roads db) roadId of
        None \<Rightarrow> []
      | Some _ \<Rightarrow>
          [(line_locate db roadId (gp_id g), v).
             g \<leftarrow> gvi_points db, buffer_hit db roadId (gp_id g), gp_month g = month,
             Some v \<leftarrow> [gp_gvi g]])"

text \<open>
  The CTE \<open>points_with_endpoints\<close>: the matched points, an endpoint at position 0 and one
  at position 1 where no matched point has that position, with the gvi of the matched point
  of least (greatest) position, or 0.0 when nothing matched; ordered by position. Rows of
  equal position keep the order of the union.
\<close>

definition points_with_endpoints :: "(real \<times> real) list \<Rightarrow> (real \<times> real) list" where
  "points_with_endpoints matched =
     (let by_pos = sort_key fst matched;
          first_gvi = (case by_pos of [] \<Rightarrow> 0 | p # _ \<Rightarrow> snd p);
          last_gvi = (case rev by_pos of [] \<Rightarrow> 0 | p # _ \<Rightarrow> snd p);
          start_row = (if \<exists>p \<in> set matched. fst p = 0 then [] else [(0, first_gvi)]);
          end_row = (if \<exists>p \<in> set matched. fst p = 1 then [] else [(1, last_gvi)])
      in sort_key fst (matched @ start_row @ end_row))"

text \<open>
  The CTE \<open>segment_intervals\<close> and the final \<open>SELECT\<close>: each row paired with its
  successor (\<open>LEAD\<close>), the rows without successor dropped, and the sum of
  \<open>(end_pos - start_pos) * total_length * ((start_gvi + end_gvi) / 2.0 - 1.0)\<close>.
  \<open>total_length\<close> is \<open>NULL\<close> when the road is missing or has no length.
\<close>

definition interval_term :: "real option \<Rightarrow> (real \<times> real) \<times> (real \<times> real) \<Rightarrow> real option" where
  "interval_term total_length iv =
     (case iv of ((start_pos, start_gvi), (end_pos, end_gvi)) \<Rightarrow>
        map_option (\<lambda>L. (end_pos - start_pos) * L * ((start_gvi + end_gvi) / 2 - 1)) total_length)"

definition segment_dgvi_query :: "spatial_store \<Rightarrow> int \<Rightarrow> string \<Rightarrow> real" where
  "segment_dgvi_query db roadId month =
     (let total_length = (case map_of (roads db) roadId of Some (Some L) \<Rightarrow> Some L | _ \<Rightarrow> None);
          pts = points_with_endpoints (matched_gvi_points db roadId month);
          intervals = zip pts (tl pts)
      in case sql_sum (map (interval_term total_length) intervals) of
           None \<Rightarrow> 0
         | Some s \<Rightarrow> s)"

text \<open>
  \<open>calculateSegmentDGVI\<close>: the query, \<open>result.rows[0]?.dgvi || 0.0\<close>, and 0.0 when the
  query throws.
\<close>

definition calculateSegmentDGVI :: "spatial_store \<Rightarrow> int \<Rightarrow> string \<Rightarrow> real" where
  "calculateSegmentDGVI db roadId month =
     (if query_error db roadId month then 0
      else let dgvi = segment_dgvi_query db roadId month in if dgvi \<noteq> 0 then dgvi else 0)"

text \<open>The premise of the boundary case: no GVI point of the month in the buffer of the road.\<close>

definition no_gvi_point_in_buffer :: "spatial_store \<Rightarrow> int \<Rightarrow> string \<Rightarrow> bool" where
  "no_gvi_point_in_buffer db roadId month =
     (\<forall>g \<in> set (gvi_points db). gp_month g = month \<longrightarrow> \<not> buffer_hit db roadId (gp_id g))"

subsection \<open>The per-month rebuild\<close>

text \<open>
  The table \<open>road_dgvi\<close>: rows keyed by (road\_id, month), both value columns nullable.
  The column \<open>updated_at\<close> is left out.
\<close>

record dgvi_row =
  dgvi :: "real option"
  dgvi_normalized :: "real option"

type_synonym road_dgvi = "((int \<times> string) \<times> dgvi_row) list"

text \<open>
  \<open>INSERT ... ON CONFLICT (road_id, month) DO UPDATE SET dgvi = $3\<close>: a row with the key
  gets the new \<open>dgvi\<close> and keeps its \<open>dgvi_normalized\<close>; otherwise a row is added, whose
  \<open>dgvi_normalized\<close> is \<open>NULL\<close>.
\<close>

definition upsert_dgvi :: "int \<Rightarrow> string \<Rightarrow> real \<Rightarrow> road_dgvi \<Rightarrow> road_dgvi" where
  "upsert_dgvi roadId month d tbl =
     (if (roadId, month) \<in> fst ` set tbl
      then map (\<lambda>(k, row). if k = (roadId, month) then (k, row\<lparr>dgvi := Some d\<rparr>) else (k, row)) tbl
      else tbl @ [((roadId, month), \<lparr>dgvi = Some d, dgvi_normalized = None\<rparr>)])"

text \<open>\<open>MIN\<close> and \<open>MAX\<close> over the non-\<open>NULL\<close> values; \<open>NULL\<close> when there is none.\<close>

fun sql_min :: "real list \<Rightarrow> real option" where
  "sql_min [] = None"
| "sql_min (x # xs) = (case sql_min xs of None \<Rightarrow> Some x | Some y \<Rightarrow> Some (min x y))"

fun sql_max :: "real list \<Rightarrow> real option" where
  "sql_max [] = None"
| "sql_max (x # xs) = (case sql_max xs of None \<Rightarrow> Some x | Some y \<Rightarrow> Some (max x y))"

definition month_dgvis :: "road_dgvi \<Rightarrow> string \<Rightarrow> real list" where
  "month_dgvis tbl month = [v. (k, row) \<leftarrow> tbl, snd k = month, Some v \<leftarrow> [dgvi row]]"

text \<open>
  The \<open>CASE\<close> of the normalising \<open>UPDATE\<close>. A comparison with \<open>NULL\<close> is not true, so
  the \<open>ELSE\<close> branch is taken then, and arithmetic on \<open>NULL\<close> gives \<open>NULL\<close>.
\<close>

definition normalized_value :: "real option \<Rightarrow> real option \<Rightarrow> real option \<Rightarrow> real option" where
  "normalized_value min_dgvi max_dgvi d =
     (case (min_dgvi, max_dgvi) of
        (Some lo, Some hi) \<Rightarrow>
          if hi = lo then Some 0
          else (case d of None \<Rightarrow> None | Some x \<Rightarrow> Some ((x - lo) / (hi - lo)))
      | _ \<Rightarrow> None)"

definition normalize_month :: "string \<Rightarrow> road_dgvi \<Rightarrow> road_dgvi" where
  "normalize_month month tbl =
     (let min_dgvi = sql_min (month_dgvis tbl month);
          max_dgvi = sql_max (month_dgvis tbl month)
      in map (\<lambda>(k, row).
            if snd k = month
            then (k, row\<lparr>dgvi_normalized := normalized_value min_dgvi max_dgvi (dgvi row)\<rparr>)
            else (k, row)) tbl)"

text \<open>The slices \<open>rows.slice(i, i + batchSize)\<close> for \<open>i = 0, batchSize, ...\<close>.\<close>

fun batches :: "nat \<Rightarrow> 'a list \<Rightarrow> 'a list list" where
  "batches n xs = (if n = 0 \<or> xs = [] then [] else take n xs # batches n (drop n xs))"

record update_stats =
  totalRoads :: nat
  processed :: nat
  successful :: nat

text \<open>The body of the inner loop: compute, upsert, count.\<close>

definition process_road :: "spatial_store \<Rightarrow> string \<Rightarrow> int \<Rightarrow> road_dgvi \<times> update_stats
    \<Rightarrow> road_dgvi \<times> update_stats" where
  "process_road db month roadId st =
     (case st of (tbl, stats) \<Rightarrow>
        let d = calculateSegmentDGVI db roadId month
        in (upsert_dgvi roadId month d tbl,
            stats\<lparr>successful := (if d \<noteq> 0 then Suc (successful stats) else successful stats),
                  processed := Suc (processed stats)\<rparr>))"

text \<open>
  \<open>updateAllRoadDGVI\<close>: all road ids in ascending order, in batches of 100, then the
  normalisation of the month. The result is the new table and the returned statistics.
\<close>

definition updateAllRoadDGVI :: "spatial_store \<Rightarrow> string \<Rightarrow> road_dgvi \<Rightarrow> road_dgvi \<times> update_stats" where
  "updateAllRoadDGVI db month tbl =
     (let rows = sort (map fst (roads db));
          batchSize = 100;
          st = fold (\<lambda>batch st. fold (process_road db month) batch st) (batches batchSize rows)
                 (tbl, \<lparr>totalRoads = length rows, processed = 0, successful = 0\<rparr>)
      in (normalize_month month (fst st), snd st))"

text \<open>
  The foreign key of \<open>road_dgvi\<close>: every row refers to a road of the road table.
\<close>

definition foreign_key_ok :: "spatial_store \<Rightarrow> road_dgvi \<Rightarrow> bool" where
  "foreign_key_ok db tbl = (\<forall>k \<in> fst ` set tbl. fst k \<in> fst ` set (roads db))"

text \<open>
  A store with two roads and one GVI point of July 2025 on road 1, and a table with a row
  from an earlier rebuild.
\<close>

definition sparse_store :: spatial_store where
  "sparse_store = \<lparr>roads = [(1, Some 100), (2, Some 40)],
     gvi_points = [\<lparr>gp_id = 0, gp_month = ''2025-07'', gp_gvi = Some (1/2)\<rparr>],
     buffer_hit = (\<lambda>r p. r = 1 \<and> p = 0),
     line_locate = (\<lambda>r p. 1/2), query_error = (\<lambda>r m. False),
     within_200m = (\<lambda>r x y. True)\<rparr>"

definition old_table :: road_dgvi where
  "old_table = [((1, ''2025-07''), \<lparr>dgvi = None, dgvi_normalized = Some 1\<rparr>)]"

text \<open>
  Two notions for reasoning about the rebuild: the upserts of the loop as one fold over the
  road ids, and a table in which every road of a set has rows for the month, all holding
  the computed value.
\<close>

definition calc_upserts :: "spatial_store \<Rightarrow> string \<Rightarrow> int list \<Rightarrow> road_dgvi \<Rightarrow> road_dgvi" where
  "calc_upserts db m ids tbl = fold (\<lambda>r. upsert_dgvi r m (calculateSegmentDGVI db r m)) ids tbl"

definition settled :: "(int \<Rightarrow> real) \<Rightarrow> string \<Rightarrow> int set \<Rightarrow> road_dgvi \<Rightarrow> bool" where
  "settled c m S tbl = (\<forall>r \<in> S. (r, m) \<in> fst ` set tbl \<and> (\<forall>row. ((r, m), row) \<in> set tbl \<longrightarrow> dgvi row = Some (c r)))"

declare batches.simps [simp del]

section \<open>JavaScript numbers\<close>

text \<open>
  A JavaScript number is a real number or \<open>NaN\<close>; the infinities are not modelled (the
  source divides by non-zero values only). Arithmetic on \<open>NaN\<close> gives \<open>NaN\<close>, and every
  comparison with \<open>NaN\<close> is false.
\<close>

datatype jsnum = Num real | NaN

definition jadd :: "jsnum \<Rightarrow> jsnum \<Rightarrow> jsnum" where
  "jadd a b = (case (a, b) of (Num x, Num y) \<Rightarrow> Num (x + y) | _ \<Rightarrow> NaN)"

definition jsub :: "jsnum \<Rightarrow> jsnum \<Rightarrow> jsnum" where
  "jsub a b = (case (a, b) of (Num x, Num y) \<Rightarrow> Num (x - y) | _ \<Rightarrow> NaN)"

definition jmul :: "jsnum \<Rightarrow> jsnum \<Rightarrow> jsnum" where
  "jmul a b = (case (a, b) of (Num x, Num y) \<Rightarrow> Num (x * y) | _ \<Rightarrow> NaN)"

definition jdiv :: "jsnum \<Rightarrow> jsnum \<Rightarrow> jsnum" where
  "jdiv a b = (case (a, b) of (Num x, Num y) \<Rightarrow> if y = 0 then NaN else Num (x / y) | _ \<Rightarrow> NaN)"

definition jgt :: "jsnum \<Rightarrow> jsnum \<Rightarrow> bool" where
  "jgt a b = (case (a, b) of (Num x, Num y) \<Rightarrow> x > y | _ \<Rightarrow> False)"

text \<open>\<open>Math.max\<close> and \<open>Math.min\<close> of two numbers: \<open>NaN\<close> when an argument is.\<close>

definition jmax :: "jsnum \<Rightarrow> jsnum \<Rightarrow> jsnum" where
  "jmax a b = (case (a, b) of (Num x, Num y) \<Rightarrow> Num (max x y) | _ \<Rightarrow> NaN)"

definition jmin :: "jsnum \<Rightarrow> jsnum \<Rightarrow> jsnum" where
  "jmin a b = (case (a, b) of (Num x, Num y) \<Rightarrow> Num (min x y) | _ \<Rightarrow> NaN)"

text \<open>Truthiness of a number, and \<open>a || b\<close> on numbers.\<close>

definition truthy :: "jsnum \<Rightarrow> bool" where
  "truthy a = (case a of Num x \<Rightarrow> x \<noteq> 0 | NaN \<Rightarrow> False)"

definition js_or :: "jsnum \<Rightarrow> jsnum \<Rightarrow> jsnum" where
  "js_or a b = (if truthy a then a else b)"

text \<open>\<open>Math.abs(a - b) <= 1\<close>: two durations agree within a tolerance of one second.\<close>

definition within_one_second :: "jsnum \<Rightarrow> jsnum \<Rightarrow> bool" where
  "within_one_second a b = (case jsub a b of Num d \<Rightarrow> \<bar>d\<bar> \<le> 1 | NaN \<Rightarrow> False)"

section \<open>Segments and route plans (route\_segment\_structures.js, route\_plan.js)\<close>

record point =
  lat :: real
  lon :: real

text \<open>
  A site as \<open>findNearbySites\<close> returns it, and the description of a stop point that the
  planner passes around. In the latter every property may be missing.
\<close>

record site =
  siteId :: int
  siteName :: string
  site_lat :: real
  site_lon :: real
  walkingDistance :: real

record stop_info =
  si_stop_point_id :: "int option"
  si_site_id :: "int option"
  si_stop_name :: string
  si_lat :: "real option"
  si_lon :: "real option"

record stop_geom =
  sg_lat :: "real option"
  sg_lon :: "real option"

datatype segment_type = walking | bus_waiting | bus_ride

text \<open>
  One record for the three segment classes. A property that a class does not have is
  \<open>None\<close>: a waiting segment has no \<open>roadIds\<close>, a walking segment no stop ids.
  Descriptions, line labels and GeoJSON geometries are left out.
\<close>

record segment =
  seg_type :: segment_type
  subtype :: "string option"
  duration :: jsnum
  distance :: "jsnum option"
  roadIds :: "int list option"
  stopPointId :: "int option"
  stopGeom :: "stop_geom option"
  startStopId :: "int option"
  endStopId :: "int option"
  seg_lineId :: "int option"
  seg_directionCode :: "int option"
  expectedDeparture :: "int option"
  expectedArrival :: "int option"
  is_transfer_wait :: bool

definition blank_segment :: "segment_type \<Rightarrow> jsnum \<Rightarrow> segment" where
  "blank_segment t d = \<lparr>seg_type = t, subtype = None, duration = d, distance = None,
     roadIds = None, stopPointId = None, stopGeom = None, startStopId = None, endStopId = None,
     seg_lineId = None, seg_directionCode = None, expectedDeparture = None,
     expectedArrival = None, is_transfer_wait = False\<rparr>"

text \<open>
  The factories. \<open>config.distance || 0\<close> and \<open>config.roadIds || []\<close> replace a missing
  value; \<open>createWaitingSegment\<close> also replaces its duration by \<open>config.duration || 0\<close>.
\<close>

definition createWalkingSegment :: "jsnum \<Rightarrow> jsnum option \<Rightarrow> int list option \<Rightarrow> segment" where
  "createWalkingSegment dur dst rids =
     (blank_segment walking dur)
       \<lparr>distance := Some (js_or (case dst of None \<Rightarrow> Num 0 | Some d \<Rightarrow> d) (Num 0)),
        roadIds := Some (case rids of None \<Rightarrow> [] | Some r \<Rightarrow> r)\<rparr>"

definition createIntraSiteTransferSegment :: "jsnum \<Rightarrow> jsnum \<Rightarrow> segment" where
  "createIntraSiteTransferSegment dur dst =
     (blank_segment walking dur)
       \<lparr>subtype := Some ''intra_site_transfer'',
        distance := Some (js_or dst (Num 0)),
        roadIds := Some []\<rparr>"

definition createWaitingSegment :: "jsnum \<Rightarrow> stop_info \<Rightarrow> int option \<Rightarrow> segment" where
  "createWaitingSegment dur stop departure =
     (blank_segment bus_waiting (js_or dur (Num 0)))
       \<lparr>stopPointId := si_stop_point_id stop,
        stopGeom := Some \<lparr>sg_lat = si_lat stop, sg_lon = si_lon stop\<rparr>,
        expectedDeparture := departure\<rparr>"

definition createTransferWaitingSegment :: "jsnum \<Rightarrow> stop_info \<Rightarrow> int option \<Rightarrow> segment" where
  "createTransferWaitingSegment dur stop departure =
     (blank_segment bus_waiting dur)
       \<lparr>stopPointId := si_stop_point_id stop,
        stopGeom := Some \<lparr>sg_lat = si_lat stop, sg_lon = si_lon stop\<rparr>,
        expectedDeparture := departure,
        is_transfer_wait := True\<rparr>"

definition createBusRideSegment :: "jsnum \<Rightarrow> stop_info \<Rightarrow> stop_info \<Rightarrow> int option \<Rightarrow> int option
    \<Rightarrow> int option \<Rightarrow> int option \<Rightarrow> segment" where
  "createBusRideSegment dur startStop endStop lineId directionCode departure arrival =
     (blank_segment bus_ride dur)
       \<lparr>roadIds := Some [],
        startStopId := si_stop_point_id startStop,
        endStopId := si_stop_point_id endStop,
        seg_lineId := lineId,
        seg_directionCode := directionCode,
        expectedDeparture := departure,
        expectedArrival := arrival\<rparr>"

datatype route_type = walking_route | direct_bus | transfer_bus

record route_plan =
  routeType :: route_type
  segments :: "segment list"
  totalDuration :: jsnum
  origin :: point
  destination :: point
  totalAcDGVI :: jsnum
  durationScore :: jsnum
  acDGVIScore :: jsnum
  totalScore :: jsnum
  strategy :: "string option"
  gviDataMonth :: string

text \<open>The constructor of \<open>RoutePlan\<close>: the scoring fields start at 0.\<close>

definition new_RoutePlan :: "route_type \<Rightarrow> segment list \<Rightarrow> jsnum \<Rightarrow> point \<Rightarrow> point \<Rightarrow> string
    \<Rightarrow> route_plan" where
  "new_RoutePlan t segs tot orig dest month =
     \<lparr>routeType = t, segments = segs, totalDuration = tot, origin = orig, destination = dest,
      totalAcDGVI = Num 0, durationScore = Num 0, acDGVIScore = Num 0, totalScore = Num 0,
      strategy = None, gviDataMonth = month\<rparr>"

text \<open>The sum of the durations of the segments of a route, added from left to right.\<close>

definition segment_duration_sum :: "route_plan \<Rightarrow> jsnum" where
  "segment_duration_sum r = foldl jadd (Num 0) (map duration (segments r))"

text \<open>\<open>RoutePlan.createWalkingRoute\<close>: one walking segment of the whole duration.\<close>

record walking_route_config =
  wr_totalDuration :: jsnum
  wr_totalDistance :: "jsnum option"
  wr_origin :: point
  wr_destination :: point
  wr_roadIds :: "int list option"
  wr_gviDataMonth :: string

definition createWalkingRoute :: "walking_route_config \<Rightarrow> route_plan" where
  "createWalkingRoute config =
     new_RoutePlan walking_route
       [createWalkingSegment (wr_totalDuration config) (wr_totalDistance config)
          (Some (case wr_roadIds config of None \<Rightarrow> [] | Some r \<Rightarrow> r))]
       (wr_totalDuration config) (wr_origin config) (wr_destination config)
       (wr_gviDataMonth config)"

text \<open>
  \<open>RoutePlan.createDirectBusRoute\<close>: a walking segment where the walking time is
  positive, a waiting segment of duration 0, the ride, and again a walking segment where
  the walking time is positive.
\<close>

record direct_route_config =
  dr_origin :: point
  dr_destination :: point
  walkingToDeparture :: jsnum
  walkingToDepDistance :: "jsnum option"
  walkingToDepRoadIds :: "int list option"
  departureStop :: stop_info
  arrivalStop :: stop_info
  busRideDuration :: jsnum
  walkingFromArrival :: jsnum
  walkingFromArrDistance :: "jsnum option"
  walkingFromArrRoadIds :: "int list option"
  dr_lineId :: "int option"
  dr_directionCode :: "int option"
  dr_expectedDeparture :: int
  dr_expectedArrival :: int
  dr_totalDuration :: jsnum
  dr_gviDataMonth :: string

definition createDirectBusRoute :: "direct_route_config \<Rightarrow> route_plan" where
  "createDirectBusRoute config =
     new_RoutePlan direct_bus
       ((if jgt (walkingToDeparture config) (Num 0)
         then [createWalkingSegment (walkingToDeparture config)
                 (Some (js_or (case walkingToDepDistance config of None \<Rightarrow> Num 0 | Some d \<Rightarrow> d) (Num 0)))
                 (walkingToDepRoadIds config)]
         else [])
        @ [createWaitingSegment (Num 0) (departureStop config) (Some (dr_expectedDeparture config)),
           createBusRideSegment (busRideDuration config) (departureStop config) (arrivalStop config)
             (dr_lineId config) (dr_directionCode config)
             (Some (dr_expectedDeparture config)) (Some (dr_expectedArrival config))]
        @ (if jgt (walkingFromArrival config) (Num 0)
           then [createWalkingSegment (walkingFromArrival config)
                   (Some (js_or (case walkingFromArrDistance config of None \<Rightarrow> Num 0 | Some d \<Rightarrow> d) (Num 0)))
                   (walkingFromArrRoadIds config)]
           else []))
       (dr_totalDuration config) (dr_origin config) (dr_destination config)
       (dr_gviDataMonth config)"

text \<open>
  \<open>RoutePlan.createTransferRoute\<close>. The first ride reads \<open>config.lineId\<close> and
  \<open>config.directionCode\<close>, which the caller does not set; the second ride sets neither.
\<close>

record transfer_route_config =
  tr_origin :: point
  tr_destination :: point
  walkingToFirst :: jsnum
  walkingToFirstDistance :: jsnum
  firstDepartureStop :: stop_info
  firstDeparture :: int
  firstBusRideDuration :: jsnum
  firstArrival :: int
  transferArrivalStop :: stop_info
  transferDepartureStop :: stop_info
  intraSiteWalk :: jsnum
  intraSiteDistance :: jsnum
  transferWaiting :: jsnum
  secondDeparture :: int
  secondBusRideDuration :: jsnum
  secondArrival :: int
  finalArrivalStop :: stop_info
  walkingFromFinal :: jsnum
  walkingFromFinalDistance :: jsnum
  tr_totalDuration :: jsnum
  tr_gviDataMonth :: string

definition createTransferRoute :: "transfer_route_config \<Rightarrow> route_plan" where
  "createTransferRoute config =
     new_RoutePlan transfer_bus
       ((if jgt (walkingToFirst config) (Num 0)
         then [createWalkingSegment (walkingToFirst config)
                 (Some (js_or (walkingToFirstDistance config) (Num 0))) None]
         else [])
        @ [createWaitingSegment (Num 0) (firstDepartureStop config) (Some (firstDeparture config)),
           createBusRideSegment (firstBusRideDuration config) (firstDepartureStop config)
             (transferArrivalStop config) None None
             (Some (firstDeparture config)) (Some (firstArrival config))]
        @ (if jgt (intraSiteWalk config) (Num 0)
           then [createIntraSiteTransferSegment (intraSiteWalk config) (intraSiteDistance config)]
           else [])
        @ [createTransferWaitingSegment (transferWaiting config) (transferDepartureStop config)
             (Some (secondDeparture config)),
           createBusRideSegment (secondBusRideDuration config) (transferDepartureStop config)
             (finalArrivalStop config) None None
             (Some (secondDeparture config)) (Some (secondArrival config))]
        @ (if jgt (walkingFromFinal config) (Num 0)
           then [createWalkingSegment (walkingFromFinal config)
                   (Some (js_or (walkingFromFinalDistance config) (Num 0))) None]
           else []))
       (tr_totalDuration config) (tr_origin config) (tr_destination config)
       (tr_gviDataMonth config)"

section \<open>Path solver (routing\_engine.js)\<close>

text \<open>
  The road graph as the planner queries it. \<open>nearest_vertex\<close> is the nearest-node query
  for a longitude and a latitude (\<open>None\<close>: no row). \<open>pgr_dijkstra wt wg month s t\<close> is the
  list of edge ids, in traversal order, that \<open>pgr_dijkstra\<close> returns for the cost
  expression built from the weights \<open>wt\<close>, \<open>wg\<close> and the month, from vertex \<open>s\<close> to
  vertex \<open>t\<close>. \<open>path_query_error\<close> says that a query for the two points throws.
\<close>

record road_graph =
  nearest_vertex :: "real option \<Rightarrow> real option \<Rightarrow> int option"
  pgr_dijkstra :: "real \<Rightarrow> real \<Rightarrow> string \<Rightarrow> int \<Rightarrow> int \<Rightarrow> int list"
  path_query_error :: "stop_geom \<Rightarrow> stop_geom \<Rightarrow> bool"

record preferences =
  pref_time :: real
  pref_green :: real

datatype planner_error = CannotFindNearestRoadNodes | QueryFailed

definition walkingSpeed :: real where
  "walkingSpeed = 14 / 10"

definition geom_of_point :: "point \<Rightarrow> stop_geom" where
  "geom_of_point p = \<lparr>sg_lat = Some (lat p), sg_lon = Some (lon p)\<rparr>"

text \<open>
  The route query: the rows of \<open>pgr_dijkstra\<close> joined with the road table, then
  \<open>array_agg(road_id)\<close> (\<open>NULL\<close> over no rows) and \<open>sum(length)\<close>. The query always
  returns one row.
\<close>

definition route_query :: "spatial_store \<Rightarrow> road_graph \<Rightarrow> preferences \<Rightarrow> string \<Rightarrow> int \<Rightarrow> int
    \<Rightarrow> int list option \<times> real option" where
  "route_query db g prefs month s t =
     (let route_segments =
            [(e, len). e \<leftarrow> pgr_dijkstra g (pref_time prefs) (pref_green prefs) month s t,
                       Some len \<leftarrow> [map_of (roads db) e]]
      in (if route_segments = [] then None else Some (map fst route_segments),
          sql_sum (map snd route_segments)))"

text \<open>
  \<open>calculateWalkingRoute\<close>. It throws when a nearest node is missing and rethrows a
  failed query. \<open>null / 1.4\<close> is 0, and \<open>JSON.parse(null)\<close> is \<open>null\<close>.
\<close>

definition calculateWalkingRoute :: "spatial_store \<Rightarrow> road_graph \<Rightarrow> point \<Rightarrow> point \<Rightarrow> string
    \<Rightarrow> preferences \<Rightarrow> planner_error + route_plan" where
  "calculateWalkingRoute db g orig dest gviMonth prefs =
     (if path_query_error g (geom_of_point orig) (geom_of_point dest) then Inl QueryFailed
      else
        case (nearest_vertex g (Some (lon orig)) (Some (lat orig)),
              nearest_vertex g (Some (lon dest)) (Some (lat dest))) of
          (Some originNodeId, Some destNodeId) \<Rightarrow>
            (case route_query db g prefs gviMonth originNodeId destNodeId of
               (road_ids, total_length) \<Rightarrow>
                 let totalDistance = map_option Num total_length;
                     totalDuration = jdiv (case totalDistance of None \<Rightarrow> Num 0 | Some d \<Rightarrow> d)
                                       (Num walkingSpeed)
                 in Inr (createWalkingRoute
                      \<lparr>wr_totalDuration = totalDuration, wr_totalDistance = totalDistance,
                       wr_origin = orig, wr_destination = dest, wr_roadIds = road_ids,
                       wr_gviDataMonth = gviMonth\<rparr>))
        | _ \<Rightarrow> Inl CannotFindNearestRoadNodes)"

text \<open>
  \<open>calculateWalkingSegment\<close>: the same query between two points of the planner; every
  failure gives the segment of duration 0, distance 0 and no road.
\<close>

record walking_result =
  ws_duration :: jsnum
  ws_distance :: "jsnum option"
  ws_roadIds :: "int list"

definition no_walk :: walking_result where
  "no_walk = \<lparr>ws_duration = Num 0, ws_distance = Some (Num 0), ws_roadIds = []\<rparr>"

definition calculateWalkingSegment :: "spatial_store \<Rightarrow> road_graph \<Rightarrow> stop_geom \<Rightarrow> stop_geom
    \<Rightarrow> preferences \<Rightarrow> string \<Rightarrow> walking_result" where
  "calculateWalkingSegment db g from_pt to_pt prefs gviMonth =
     (if path_query_error g from_pt to_pt then no_walk
      else
        case (nearest_vertex g (sg_lon from_pt) (sg_lat from_pt),
              nearest_vertex g (sg_lon to_pt) (sg_lat to_pt)) of
          (Some fromNodeId, Some toNodeId) \<Rightarrow>
            (case route_query db g prefs gviMonth fromNodeId toNodeId of
               (None, total_length) \<Rightarrow> no_walk
             | (Some road_ids, total_length) \<Rightarrow>
                 let dst = map_option Num total_length
                 in \<lparr>ws_duration = jdiv (case dst of None \<Rightarrow> Num 0 | Some d \<Rightarrow> d) (Num walkingSpeed),
                     ws_distance = dst, ws_roadIds = road_ids\<rparr>)
        | _ \<Rightarrow> no_walk)"

section \<open>DGVI of a route (dgvi\_calculator.js)\<close>

definition calculateWalkingDGVI :: "spatial_store \<Rightarrow> int list \<Rightarrow> string \<Rightarrow> real" where
  "calculateWalkingDGVI db rids month =
     (if rids = [] then 0 else foldl (\<lambda>totalDGVI r. totalDGVI + calculateSegmentDGVI db r month) 0 rids)"

text \<open>
  \<open>calculateWaitingDGVI\<close>: over the roads within 200 meters of the stop, the sum of
  \<open>L * avg_gvi - L\<close>, where a road without matched point, or without length, counts 0.
  A stop without coordinates has no road nearby.
\<close>

definition sql_avg :: "real list \<Rightarrow> real option" where
  "sql_avg xs = (if xs = [] then None else Some (sum_list xs / real (length xs)))"

definition waiting_road_dgvi :: "spatial_store \<Rightarrow> string \<Rightarrow> int \<Rightarrow> real" where
  "waiting_road_dgvi db month r =
     (case (sql_avg (map snd (matched_gvi_points db r month)), map_of (roads db) r) of
        (Some avg_gvi, Some (Some L)) \<Rightarrow> L * avg_gvi - L
      | _ \<Rightarrow> 0)"

definition calculateWaitingDGVI :: "spatial_store \<Rightarrow> stop_geom \<Rightarrow> string \<Rightarrow> real" where
  "calculateWaitingDGVI db stop month =
     (case (sg_lon stop, sg_lat stop) of
        (Some x, Some y) \<Rightarrow>
          sum_list [waiting_road_dgvi db month (fst road). road \<leftarrow> roads db, within_200m db (fst road) x y]
      | _ \<Rightarrow> 0)"

text \<open>
  \<open>calculateRouteDGVI\<close>: walking segments with roads and waiting segments count; a ride
  does not. (The ride branch only fills in a geometry, which is not modelled.)
\<close>

definition segment_route_dgvi :: "spatial_store \<Rightarrow> string \<Rightarrow> segment \<Rightarrow> real" where
  "segment_route_dgvi db month s =
     (case seg_type s of
        walking \<Rightarrow> (case roadIds s of Some (r # rs) \<Rightarrow> calculateWalkingDGVI db (r # rs) month | _ \<Rightarrow> 0)
      | bus_waiting \<Rightarrow> (case stopGeom s of Some sg \<Rightarrow> calculateWaitingDGVI db sg month | None \<Rightarrow> 0)
      | bus_ride \<Rightarrow> 0)"

definition calculateRouteDGVI :: "spatial_store \<Rightarrow> route_plan \<Rightarrow> string \<Rightarrow> jsnum" where
  "calculateRouteDGVI db route month =
     Num (foldl (\<lambda>totalDGVI s. totalDGVI + segment_route_dgvi db month s) 0 (segments route))"

section \<open>Walking candidates (routing\_engine.js)\<close>

text \<open>
  The fingerprint of \<open>deduplicateRoutes\<close>: the road ids of all segments that have some,
  \<open>sort()\<close>, \<open>join(',')\<close>. The default \<open>sort\<close> compares the elements as strings, by code
  unit, and is stable.
\<close>

fun js_join :: "string list \<Rightarrow> string" where
  "js_join [] = []"
| "js_join [x] = x"
| "js_join (x # y # ys) = x @ '','' @ js_join (y # ys)"

definition route_road_ids :: "route_plan \<Rightarrow> int list" where
  "route_road_ids route = concat [ids. s \<leftarrow> segments route, Some ids \<leftarrow> [roadIds s]]"

definition fingerprint :: "route_plan \<Rightarrow> string" where
  "fingerprint route = js_join (map string_of_int (sort_key string_of_int (route_road_ids route)))"

text \<open>The loop of \<open>deduplicateRoutes\<close>, with the set \<open>seen\<close> as a list.\<close>

fun dedup_loop :: "string list \<Rightarrow> route_plan list \<Rightarrow> route_plan list" where
  "dedup_loop seen [] = []"
| "dedup_loop seen (route # rest) =
     (if fingerprint route \<in> set seen then dedup_loop seen rest
      else route # dedup_loop (fingerprint route # seen) rest)"

definition deduplicateRoutes :: "route_plan list \<Rightarrow> route_plan list" where
  "deduplicateRoutes routes = dedup_loop [] routes"

definition strategies :: "preferences \<Rightarrow> (string \<times> preferences) list" where
  "strategies prefs =
     [(''User Preference'', prefs),
      (''ASAP'', \<lparr>pref_time = 1, pref_green = 0\<rparr>),
      (''GROOT'', \<lparr>pref_time = 0, pref_green = 1\<rparr>)]"

text \<open>
  The candidates in the order of the strategies; a strategy whose route throws is skipped.
\<close>

definition walking_candidates :: "spatial_store \<Rightarrow> road_graph \<Rightarrow> point \<Rightarrow> point \<Rightarrow> string
    \<Rightarrow> preferences \<Rightarrow> route_plan list" where
  "walking_candidates db g orig dest gviMonth prefs =
     concat (map (\<lambda>(name, pref).
        case calculateWalkingRoute db g orig dest gviMonth pref of
          Inl e \<Rightarrow> []
        | Inr route \<Rightarrow>
            [route\<lparr>totalAcDGVI := calculateRouteDGVI db route gviMonth, strategy := Some name\<rparr>])
       (strategies prefs))"

definition generateWalkingCandidates :: "spatial_store \<Rightarrow> road_graph \<Rightarrow> point \<Rightarrow> point \<Rightarrow> string
    \<Rightarrow> preferences \<Rightarrow> route_plan list" where
  "generateWalkingCandidates db g orig dest gviMonth prefs =
     take 2 (deduplicateRoutes (walking_candidates db g orig dest gviMonth prefs))"

text \<open>
  The deduplication in the words of the specification: a candidate survives when no
  earlier candidate has its fingerprint, and the survivors keep the order of the
  candidates. The first two survivors are the result.
\<close>

definition survivors :: "route_plan list \<Rightarrow> route_plan list" where
  "survivors cs =
     map (\<lambda>i. cs ! i)
       (filter (\<lambda>i. fingerprint (cs ! i) \<notin> fingerprint ` set (take i cs)) [0..<length cs])"

definition first_two_survivors :: "route_plan list \<Rightarrow> route_plan list" where
  "first_two_survivors cs = take 2 (survivors cs)"

text \<open>
  A graph on the two roads of \<open>sparse_store\<close>: vertex 1 is nearest to longitude 0, vertex 2
  to longitude 1; the solver answers road 1 when the green weight is 1 and road 2 otherwise.
\<close>

definition demo_graph :: road_graph where
  "demo_graph = \<lparr>nearest_vertex = (\<lambda>x y. if x = Some 0 then Some 1 else if x = Some 1 then Some 2 else None),
     pgr_dijkstra = (\<lambda>wt wg m s t. if s = t then [] else if wg = 1 then [1] else [2]),
     path_query_error = (\<lambda>a b. False)\<rparr>"

text \<open>
  The same vertices with three different answers of the solver: road 2 when the time weight
  is 1, road 1 when the green weight is 1, and both roads otherwise.
\<close>

definition three_way_graph :: road_graph where
  "three_way_graph = \<lparr>nearest_vertex = (\<lambda>x y. if x = Some 0 then Some 1 else if x = Some 1 then Some 2 else None),
     pgr_dijkstra = (\<lambda>wt wg m s t. if s = t then [] else if wt = 1 then [2] else if wg = 1 then [1] else [1, 2]),
     path_query_error = (\<lambda>a b. False)\<rparr>"

definition west :: point where
  "west = \<lparr>lat = 0, lon = 0\<rparr>"

definition east :: point where
  "east = \<lparr>lat = 0, lon = 1\<rparr>"

definition balanced :: preferences where
  "balanced = \<lparr>pref_time = 1/2, pref_green = 1/2\<rparr>"

section \<open>Bus candidates (routing\_engine.js)\<close>

text \<open>
  The transit tables as the planner queries them: \<open>nearby_sites\<close> is the result of
  \<open>findNearbySites\<close>, \<open>stop_points\<close> of \<open>getStopPointSite\<close>, \<open>next_stop\<close> of
  \<open>getNextStopDirect\<close> for a line, a direction and a stop (the id, the site and the name of
  the next stop), \<open>journey_destinations\<close> of \<open>checkJourneyDestinations\<close> for a line, a
  direction, a stop and the destination site ids, and \<open>bus_ride_roads\<close> the road ids that
  \<open>calculateBusRideDGVI\<close> finds between two stops (\<open>None\<close>: no geometry). The two
  instance caches of the engine store results of \<open>stop_points\<close> and \<open>next_stop\<close>; as the
  tables are functions here, reading through a cache gives the same value.
\<close>

record next_stop_info =
  next_stop_point_id :: int
  next_site_id :: "int option"
  next_name :: string

record transit_store =
  nearby_sites :: "point \<Rightarrow> site list"
  stop_points :: "int \<Rightarrow> stop_info option"
  next_stop :: "int option \<Rightarrow> int option \<Rightarrow> int \<Rightarrow> next_stop_info option"
  journey_destinations :: "int option \<Rightarrow> int option \<Rightarrow> int \<Rightarrow> int list \<Rightarrow> int list"
  bus_ride_roads :: "int \<Rightarrow> int \<Rightarrow> int list option"

text \<open>An id read from the feed is falsy when it is missing or 0.\<close>

definition truthy_id :: "int option \<Rightarrow> bool" where
  "truthy_id i = (case i of None \<Rightarrow> False | Some n \<Rightarrow> n \<noteq> 0)"

text \<open>\<open>departuresCache.get(site.siteId) || []\<close>, collected in a \<open>Map\<close> keyed by site id.\<close>

definition site_departures :: "site list \<Rightarrow> (int \<times> departure list) list \<Rightarrow> (int \<times> departure list) list" where
  "site_departures sites departuresCache =
     foldl (\<lambda>m s. AList.update (siteId s)
               (case map_of departuresCache (siteId s) of None \<Rightarrow> [] | Some deps \<Rightarrow> deps) m)
       [] sites"

record journey_info =
  ji_siteId :: int
  ji_stopPointId :: int
  ji_expectedTime :: int
  ji_lineId :: "int option"
  ji_directionCode :: "int option"

definition journey_of :: "int \<Rightarrow> departure \<Rightarrow> journey_info" where
  "journey_of sid dep =
     \<lparr>ji_siteId = sid, ji_stopPointId = the (stop_point_id dep), ji_expectedTime = expected dep,
      ji_lineId = (case dep_line dep of None \<Rightarrow> None | Some l \<Rightarrow> line_id l),
      ji_directionCode = direction_code dep\<rparr>"

text \<open>The map \<open>originJourneys\<close>: the departures of the origin sites that have a journey
  id and a stop point id, keyed by journey id; a later departure of a journey replaces an
  earlier one.\<close>

definition originJourneys_of :: "(int \<times> departure list) list \<Rightarrow> (int \<times> journey_info) list" where
  "originJourneys_of originDepartures =
     foldl (\<lambda>m (sid, deps).
        foldl (\<lambda>m dep.
           if truthy_id (journey_id dep) \<and> truthy_id (stop_point_id dep)
           then AList.update (the (journey_id dep)) (journey_of sid dep) m else m) m deps)
       [] originDepartures"

text \<open>The map \<open>destJourneys\<close>: the departures of the destination sites whose journey is
  in \<open>originJourneys\<close> with the same line and direction.\<close>

definition destJourneys_of :: "(int \<times> journey_info) list \<Rightarrow> (int \<times> departure list) list
    \<Rightarrow> (int \<times> journey_info) list" where
  "destJourneys_of originJourneys destDepartures =
     foldl (\<lambda>m (sid, deps).
        foldl (\<lambda>m dep.
           if \<not> truthy_id (journey_id dep) \<or> \<not> truthy_id (stop_point_id dep) then m
           else (case map_of originJourneys (the (journey_id dep)) of
                   None \<Rightarrow> m
                 | Some originInfo \<Rightarrow>
                     if ji_lineId originInfo = (case dep_line dep of None \<Rightarrow> None | Some l \<Rightarrow> line_id l)
                        \<and> ji_directionCode originInfo = direction_code dep
                     then AList.update (the (journey_id dep)) (journey_of sid dep) m
                     else m)) m deps)
       [] destDepartures"

definition seconds_between :: "int \<Rightarrow> int \<Rightarrow> real" where
  "seconds_between later earlier = real_of_int (later - earlier) / 1000"

definition geom_of_site :: "site \<Rightarrow> stop_geom" where
  "geom_of_site s = \<lparr>sg_lat = Some (site_lat s), sg_lon = Some (site_lon s)\<rparr>"

definition geom_of_stop :: "stop_info \<Rightarrow> stop_geom" where
  "geom_of_stop s = \<lparr>sg_lat = si_lat s, sg_lon = si_lon s\<rparr>"

definition point_of_site :: "site \<Rightarrow> point" where
  "point_of_site s = \<lparr>lat = site_lat s, lon = site_lon s\<rparr>"

text \<open>
  The body of the loop that creates the direct route plans, for one journey. The result is
  \<open>Inr None\<close> where the source continues with the next journey, \<open>Inr (Some route)\<close>
  where it pushes a route, and \<open>Inl ()\<close> where it throws (a site that \<open>find\<close> does not
  find); \<open>findDirectRoutes\<close> catches that and returns no route at all.
\<close>

definition direct_route_for :: "spatial_store \<Rightarrow> road_graph \<Rightarrow> transit_store \<Rightarrow> site list \<Rightarrow> site list
    \<Rightarrow> int \<Rightarrow> real \<Rightarrow> string \<Rightarrow> preferences \<Rightarrow> journey_info \<Rightarrow> journey_info option
    \<Rightarrow> unit + route_plan option" where
  "direct_route_for db g ts originSites destinationSites currentTime maxDuration gviMonth prefs depInfo arr =
     (case arr of
        None \<Rightarrow> Inr None
      | Some arrInfo \<Rightarrow>
          let travelTime = seconds_between (ji_expectedTime arrInfo) (ji_expectedTime depInfo)
          in if travelTime \<le> 0 \<or> travelTime > maxDuration then Inr None
             else
               (case find (\<lambda>s. siteId s = ji_siteId depInfo) originSites of
                  None \<Rightarrow> Inl ()
                | Some originSite \<Rightarrow>
                    let walkingTimeToDep = walkingDistance originSite / walkingSpeed;
                        timeUntilDeparture = seconds_between (ji_expectedTime depInfo) currentTime
                    in if walkingTimeToDep + 60 > timeUntilDeparture then Inr None
                       else
                         (case (stop_points ts (ji_stopPointId depInfo),
                                stop_points ts (ji_stopPointId arrInfo)) of
                            (Some departureStopInfo, Some arrivalStopInfo) \<Rightarrow>
                              (case find (\<lambda>s. siteId s = ji_siteId arrInfo) destinationSites of
                                 None \<Rightarrow> Inl ()
                               | Some destSite \<Rightarrow>
                                   let walkingToDep = calculateWalkingSegment db g
                                         (geom_of_site originSite) (geom_of_stop departureStopInfo)
                                         prefs gviMonth;
                                       walkingFromArr = calculateWalkingSegment db g
                                         (geom_of_stop arrivalStopInfo) (geom_of_site destSite)
                                         prefs gviMonth;
                                       tot = jadd (jadd (ws_duration walkingToDep) (Num travelTime))
                                               (ws_duration walkingFromArr)
                                   in Inr (Some (createDirectBusRoute
                                        \<lparr>dr_origin = point_of_site originSite,
                                         dr_destination = point_of_site destSite,
                                         walkingToDeparture = ws_duration walkingToDep,
                                         walkingToDepDistance = ws_distance walkingToDep,
                                         walkingToDepRoadIds = Some (ws_roadIds walkingToDep),
                                         departureStop = departureStopInfo,
                                         arrivalStop = arrivalStopInfo,
                                         busRideDuration = Num travelTime,
                                         walkingFromArrival = ws_duration walkingFromArr,
                                         walkingFromArrDistance = ws_distance walkingFromArr,
                                         walkingFromArrRoadIds = Some (ws_roadIds walkingFromArr),
                                         dr_lineId = ji_lineId depInfo,
                                         dr_directionCode = ji_directionCode depInfo,
                                         dr_expectedDeparture = ji_expectedTime depInfo,
                                         dr_expectedArrival = ji_expectedTime arrInfo,
                                         dr_totalDuration = tot,
                                         dr_gviDataMonth = gviMonth\<rparr>)))
                          | _ \<Rightarrow> Inr None)))"

fun direct_routes_loop :: "(journey_info \<Rightarrow> journey_info option \<Rightarrow> unit + route_plan option)
    \<Rightarrow> (int \<times> journey_info) list \<Rightarrow> (int \<times> journey_info) list \<Rightarrow> unit + route_plan list" where
  "direct_routes_loop body destJourneys [] = Inr []"
| "direct_routes_loop body destJourneys ((journeyId, depInfo) # rest) =
     (case body depInfo (map_of destJourneys journeyId) of
        Inl e \<Rightarrow> Inl e
      | Inr found \<Rightarrow>
          (case direct_routes_loop body destJourneys rest of
             Inl e \<Rightarrow> Inl e
           | Inr routes \<Rightarrow> Inr ((case found of None \<Rightarrow> [] | Some route \<Rightarrow> [route]) @ routes)))"

definition findDirectRoutes :: "spatial_store \<Rightarrow> road_graph \<Rightarrow> transit_store \<Rightarrow> site list \<Rightarrow> site list
    \<Rightarrow> int \<Rightarrow> real \<Rightarrow> string \<Rightarrow> (int \<times> departure list) list \<Rightarrow> preferences \<Rightarrow> route_plan list" where
  "findDirectRoutes db g ts originSites destinationSites currentTime maxDuration gviMonth departuresCache prefs =
     (let originJourneys = originJourneys_of (site_departures originSites departuresCache);
          destJourneys = destJourneys_of originJourneys (site_departures destinationSites departuresCache)
      in case direct_routes_loop
                (direct_route_for db g ts originSites destinationSites currentTime maxDuration gviMonth prefs)
                destJourneys originJourneys of
           Inl e \<Rightarrow> []
         | Inr routes \<Rightarrow> routes)"

subsection \<open>Scoring\<close>

text \<open>
  \<open>Array.prototype.sort\<close> with a comparator is a stable sort; any stable sort gives the
  result of this insertion sort when the comparator is consistent. An element moves behind
  another one only where the comparator is positive (a \<open>NaN\<close> counts as 0).
\<close>

fun insert_by :: "('a \<Rightarrow> 'a \<Rightarrow> jsnum) \<Rightarrow> 'a \<Rightarrow> 'a list \<Rightarrow> 'a list" where
  "insert_by cmp x [] = [x]"
| "insert_by cmp x (y # ys) = (if jgt (cmp x y) (Num 0) then y # insert_by cmp x ys else x # y # ys)"

definition js_sort :: "('a \<Rightarrow> 'a \<Rightarrow> jsnum) \<Rightarrow> 'a list \<Rightarrow> 'a list" where
  "js_sort cmp xs = foldr (insert_by cmp) xs []"

text \<open>\<open>Math.min(...xs)\<close> and \<open>Math.max(...xs)\<close> of a list with first element \<open>x\<close>.\<close>

definition math_min :: "jsnum \<Rightarrow> jsnum list \<Rightarrow> jsnum" where
  "math_min x xs = foldl jmin x xs"

definition math_max :: "jsnum \<Rightarrow> jsnum list \<Rightarrow> jsnum" where
  "math_max x xs = foldl jmax x xs"

definition timeNorm :: "jsnum \<Rightarrow> jsnum \<Rightarrow> route_plan \<Rightarrow> jsnum" where
  "timeNorm minTime maxTime route =
     (if jgt maxTime minTime then jdiv (jsub (totalDuration route) minTime) (jsub maxTime minTime)
      else Num 0)"

definition dgviNorm :: "jsnum \<Rightarrow> jsnum \<Rightarrow> route_plan \<Rightarrow> jsnum" where
  "dgviNorm minDGVI maxDGVI route =
     (if jgt maxDGVI minDGVI then jdiv (jsub (totalAcDGVI route) minDGVI) (jsub maxDGVI minDGVI)
      else Num 0)"

definition score_route :: "preferences \<Rightarrow> jsnum \<Rightarrow> jsnum \<Rightarrow> jsnum \<Rightarrow> jsnum \<Rightarrow> route_plan \<Rightarrow> route_plan" where
  "score_route prefs minTime maxTime minDGVI maxDGVI route =
     (let tn = timeNorm minTime maxTime route;
          dn = dgviNorm minDGVI maxDGVI route;
          penalty = jadd (jmul (Num (pref_time prefs)) tn)
                      (jmul (Num (pref_green prefs)) (jsub (Num 1) dn))
      in route\<lparr>durationScore := jsub (Num 1) tn,
               acDGVIScore := dn,
               totalScore := jsub (Num 1) penalty\<rparr>)"

definition scoreBusRoutes :: "route_plan list \<Rightarrow> preferences \<Rightarrow> route_plan list" where
  "scoreBusRoutes routes prefs =
     (case routes of
        [] \<Rightarrow> []
      | r # rs \<Rightarrow>
          let minTime = math_min (totalDuration r) (map totalDuration rs);
              maxTime = math_max (totalDuration r) (map totalDuration rs);
              minDGVI = math_min (js_or (totalAcDGVI r) (Num 0)) (map (\<lambda>r. js_or (totalAcDGVI r) (Num 0)) rs);
              maxDGVI = math_max (js_or (totalAcDGVI r) (Num 0)) (map (\<lambda>r. js_or (totalAcDGVI r) (Num 0)) rs)
          in js_sort (\<lambda>a b. jsub (totalScore b) (totalScore a))
               (map (score_route prefs minTime maxTime minDGVI maxDGVI) routes))"

subsection \<open>The bus branch\<close>

text \<open>\<open>getRouteArrivalTime\<close>, in milliseconds: the arrival of the last segment that has
  one, else the current time plus the total duration.\<close>

definition getRouteArrivalTime :: "int \<Rightarrow> route_plan \<Rightarrow> jsnum" where
  "getRouteArrivalTime now route =
     (case [a. s \<leftarrow> rev (segments route), Some a \<leftarrow> [expectedArrival s]] of
        a # _ \<Rightarrow> Num (real_of_int a)
      | [] \<Rightarrow> jadd (Num (real_of_int now)) (jmul (totalDuration route) (Num 1000)))"

definition waiting_dgvi_of :: "spatial_store \<Rightarrow> string \<Rightarrow> route_plan \<Rightarrow> jsnum" where
  "waiting_dgvi_of db gviMonth route =
     Num (foldl (\<lambda>waitingDGVI s.
            case (seg_type s, stopGeom s) of
              (bus_waiting, Some sg) \<Rightarrow> waitingDGVI + calculateWaitingDGVI db sg gviMonth
            | _ \<Rightarrow> waitingDGVI) 0 (segments route))"

text \<open>\<open>enrichBusRideVisualization\<close>, as far as it changes the modelled fields: the road
  ids of a ride whose geometry is found.\<close>

definition enrich_segment :: "transit_store \<Rightarrow> segment \<Rightarrow> segment" where
  "enrich_segment ts s =
     (if seg_type s = bus_ride \<and> truthy_id (startStopId s) \<and> truthy_id (endStopId s)
         \<and> truthy_id (seg_lineId s) \<and> seg_directionCode s \<noteq> None
      then (case bus_ride_roads ts (the (startStopId s)) (the (endStopId s)) of
              None \<Rightarrow> s
            | Some rids \<Rightarrow> s\<lparr>roadIds := Some rids\<rparr>)
      else s)"

definition enrichVisualizationData :: "transit_store \<Rightarrow> route_plan list \<Rightarrow> route_plan list" where
  "enrichVisualizationData ts routes =
     map (\<lambda>route. route\<lparr>segments := map (enrich_segment ts) (segments route)\<rparr>) routes"

definition generateBusCandidates :: "spatial_store \<Rightarrow> road_graph \<Rightarrow> transit_store \<Rightarrow> feed \<Rightarrow> point
    \<Rightarrow> point \<Rightarrow> int \<Rightarrow> string \<Rightarrow> preferences \<Rightarrow> route_plan list" where
  "generateBusCandidates db g ts api orig dest currentTime gviMonth prefs =
     (let originSites = nearby_sites ts orig;
          destinationSites = nearby_sites ts dest
      in if originSites = [] \<or> destinationSites = [] then []
         else
           let allSiteIds = map siteId originSites @ map siteId destinationSites;
               departuresCache = getBatchDepartures api allSiteIds 1200;
               directRoutes = findDirectRoutes db g ts originSites destinationSites currentTime
                                3600 gviMonth departuresCache prefs;
               sorted_routes = js_sort (\<lambda>a b. jsub (getRouteArrivalTime currentTime a)
                                                  (getRouteArrivalTime currentTime b)) directRoutes;
               top5Routes = map (\<lambda>route. route\<lparr>totalAcDGVI := waiting_dgvi_of db gviMonth route\<rparr>)
                              (take 5 sorted_routes);
               scoredRoutes = scoreBusRoutes top5Routes prefs;
               top2Routes = take 2 scoredRoutes
           in enrichVisualizationData ts top2Routes)"

subsection \<open>\<open>planRoutes\<close>\<close>

text \<open>
  The options of \<open>planRoutes\<close>; a missing one takes its default. The final
  \<open>filter(r => r !== null)\<close> removes nothing, since no candidate list holds \<open>null\<close>,
  and there is no throwing path: both branches catch their errors.
\<close>

record plan_options =
  opt_gviMonth :: "string option"
  opt_preferences :: "preferences option"
  opt_maxResults :: "nat option"

definition planRoutes :: "spatial_store \<Rightarrow> road_graph \<Rightarrow> transit_store \<Rightarrow> feed \<Rightarrow> int \<Rightarrow> point
    \<Rightarrow> point \<Rightarrow> plan_options \<Rightarrow> route_plan list" where
  "planRoutes db g ts api currentTime orig dest options =
     (let gviMonth = (case opt_gviMonth options of None \<Rightarrow> ''2025-06'' | Some m \<Rightarrow> m);
          prefs = (case opt_preferences options of
                     None \<Rightarrow> \<lparr>pref_time = 1/2, pref_green = 1/2\<rparr> | Some p \<Rightarrow> p);
          maxResults = (case opt_maxResults options of None \<Rightarrow> 4 | Some n \<Rightarrow> n);
          walkingRoutes = generateWalkingCandidates db g orig dest gviMonth prefs;
          busRoutes = generateBusCandidates db g ts api orig dest currentTime gviMonth prefs
      in take 2 walkingRoutes @ take 2 busRoutes)"

text \<open>A single bus candidate of ten minutes, for running the scoring.\<close>

definition lone_route :: route_plan where
  "lone_route = new_RoutePlan direct_bus [] (Num 600) west east ''2025-08''"

section \<open>One-transfer search (routing\_engine.js, query\_agent.js)\<close>

record query_agent =
  qa_journeyId :: int
  qa_lineId :: "int option"
  qa_directionCode :: "int option"
  qa_currentStopId :: int
  qa_nominalTime :: int
  qa_expectedTime :: int
  qa_originSite :: "site option"
  qa_departureStopInfo :: stop_info

record connection =
  c_journeyId :: int
  c_lineId :: "int option"
  c_departureTime :: int
  c_departureStopId :: int
  c_transferSiteId :: "int option"
  c_destSiteId :: int
  c_destSite :: site
  c_directionCode :: "int option"

definition transferMargin :: real where
  "transferMargin = 60"

text \<open>
  \<open>calculateStopPointDistance\<close>: the haversine distance. A coordinate that is missing is
  \<open>undefined\<close>, and the arithmetic on it gives \<open>NaN\<close>. \<open>Math.atan2\<close> is needed for
  non-negative arguments only, those the two square roots can take.
\<close>

definition atan2_nonneg :: "real \<Rightarrow> real \<Rightarrow> real" where
  "atan2_nonneg y x = (if x > 0 then arctan (y / x) else if y > 0 then pi / 2 else 0)"

definition haversine :: "real \<Rightarrow> real \<Rightarrow> real \<Rightarrow> real \<Rightarrow> real" where
  "haversine la1 lo1 la2 lo2 =
     (let R = 6371000;
          lat1 = la1 * pi / 180;
          lat2 = la2 * pi / 180;
          deltaLat = (la2 - la1) * pi / 180;
          deltaLon = (lo2 - lo1) * pi / 180;
          a = sin (deltaLat / 2) * sin (deltaLat / 2)
              + cos lat1 * cos lat2 * sin (deltaLon / 2) * sin (deltaLon / 2);
          c = 2 * atan2_nonneg (sqrt a) (sqrt (1 - a))
      in R * c)"

declare haversine_def [code del]

definition calculateStopPointDistance :: "stop_info \<Rightarrow> stop_info \<Rightarrow> jsnum" where
  "calculateStopPointDistance stop1 stop2 =
     (case (si_lat stop1, si_lon stop1, si_lat stop2, si_lon stop2) of
        (Some la1, Some lo1, Some la2, Some lo2) \<Rightarrow> Num (haversine la1 lo1 la2 lo2)
      | _ \<Rightarrow> NaN)"

text \<open>
  \<open>createTransferRoutePlan\<close>. The result is \<open>None\<close> for \<open>null\<close>: the departure stop of
  the connection is unknown, the total exceeds \<open>maxDuration\<close>, or an exception is caught
  (an agent without origin site). The second ride is estimated at 600 seconds, and the
  final arrival stop is the departure stop of the connection.
\<close>

definition createTransferRoutePlan :: "transit_store \<Rightarrow> query_agent \<Rightarrow> stop_info \<Rightarrow> connection
    \<Rightarrow> real \<Rightarrow> int \<Rightarrow> string \<Rightarrow> route_plan option" where
  "createTransferRoutePlan ts agent nextStopSite conn maxDuration transferArrivalTime gviMonth =
     (let transferArrivalStopInfo = nextStopSite
      in case stop_points ts (c_departureStopId conn) of
           None \<Rightarrow> None
         | Some transferDepartureStopInfo \<Rightarrow>
             let intraSiteDistance =
                   (if si_stop_point_id transferArrivalStopInfo \<noteq> si_stop_point_id transferDepartureStopInfo
                    then calculateStopPointDistance transferArrivalStopInfo transferDepartureStopInfo
                    else Num 0);
                 intraSiteWalk_v =
                   (if si_stop_point_id transferArrivalStopInfo \<noteq> si_stop_point_id transferDepartureStopInfo
                    then jdiv intraSiteDistance (Num walkingSpeed)
                    else Num 0)
             in case qa_originSite agent of
                  None \<Rightarrow> None
                | Some originSite \<Rightarrow>
                    let walkingToFirst_v = Num (walkingDistance originSite / walkingSpeed);
                        firstBusRide = Num (seconds_between transferArrivalTime (qa_expectedTime agent));
                        transferWaiting_v =
                          jmax (jsub (Num (seconds_between (c_departureTime conn) transferArrivalTime))
                                  intraSiteWalk_v)
                            (Num transferMargin);
                        secondBusRide = Num (10 * 60);
                        walkingFromFinal_v = Num (walkingDistance (c_destSite conn) / walkingSpeed);
                        tot = jadd (jadd (jadd (jadd (jadd walkingToFirst_v firstBusRide) intraSiteWalk_v)
                                 transferWaiting_v) secondBusRide) walkingFromFinal_v
                    in if jgt tot (Num maxDuration) then None
                       else Some (createTransferRoute
                         \<lparr>tr_origin = point_of_site originSite,
                          tr_destination = point_of_site (c_destSite conn),
                          walkingToFirst = walkingToFirst_v,
                          walkingToFirstDistance = Num (walkingDistance originSite),
                          firstDepartureStop = qa_departureStopInfo agent,
                          firstDeparture = qa_expectedTime agent,
                          firstBusRideDuration = firstBusRide,
                          firstArrival = transferArrivalTime,
                          transferArrivalStop = transferArrivalStopInfo,
                          transferDepartureStop = transferDepartureStopInfo,
                          intraSiteWalk = intraSiteWalk_v,
                          intraSiteDistance = intraSiteDistance,
                          transferWaiting = transferWaiting_v,
                          secondDeparture = c_departureTime conn,
                          secondBusRideDuration = secondBusRide,
                          secondArrival = c_departureTime conn + 600 * 1000,
                          finalArrivalStop = transferDepartureStopInfo,
                          walkingFromFinal = walkingFromFinal_v,
                          walkingFromFinalDistance = Num (walkingDistance (c_destSite conn)),
                          tr_totalDuration = tot,
                          tr_gviDataMonth = gviMonth\<rparr>))"

text \<open>The elements of a list at their first occurrence, as a \<open>Set\<close> iterates them.\<close>

definition first_occurrences :: "'a list \<Rightarrow> 'a list" where
  "first_occurrences xs = rev (remdups (rev xs))"

text \<open>
  \<open>findConnectionsFromCachedDepartures\<close>: the first ten cached departures; one that
  leaves too early, lacks an id, or repeats a (stop point, direction) already processed is
  skipped. The key \<open>`${departureStopId}_${dep.direction_code}`\<close> is the pair here.
\<close>

fun connections_loop :: "transit_store \<Rightarrow> site list \<Rightarrow> int \<Rightarrow> int option \<Rightarrow> (int \<times> int option) list
    \<Rightarrow> departure list \<Rightarrow> connection list" where
  "connections_loop ts destinationSites earliestTime transferSiteId processedKeys [] = []"
| "connections_loop ts destinationSites earliestTime transferSiteId processedKeys (dep # rest) =
     (if expected dep < earliestTime then
        connections_loop ts destinationSites earliestTime transferSiteId processedKeys rest
      else if \<not> truthy_id (journey_id dep) \<or> \<not> truthy_id (stop_point_id dep) then
        connections_loop ts destinationSites earliestTime transferSiteId processedKeys rest
      else
        let departureStopId = the (stop_point_id dep);
            stopKey = (departureStopId, direction_code dep)
        in if stopKey \<in> set processedKeys then
             connections_loop ts destinationSites earliestTime transferSiteId processedKeys rest
           else
             let lineId = (case dep_line dep of None \<Rightarrow> None | Some l \<Rightarrow> line_id l);
                 reachableDestinations = journey_destinations ts lineId (direction_code dep)
                     departureStopId (first_occurrences (map siteId destinationSites))
             in [\<lparr>c_journeyId = the (journey_id dep), c_lineId = lineId,
                   c_departureTime = expected dep, c_departureStopId = departureStopId,
                   c_transferSiteId = transferSiteId, c_destSiteId = destSiteId,
                   c_destSite = destSite, c_directionCode = direction_code dep\<rparr>.
                  destSiteId \<leftarrow> first_occurrences reachableDestinations,
                  Some destSite \<leftarrow> [find (\<lambda>s. siteId s = destSiteId) destinationSites]]
                @ connections_loop ts destinationSites earliestTime transferSiteId
                    (stopKey # processedKeys) rest)"

definition findConnectionsFromCachedDepartures :: "transit_store \<Rightarrow> departure list \<Rightarrow> site list \<Rightarrow> int
    \<Rightarrow> int option \<Rightarrow> connection list" where
  "findConnectionsFromCachedDepartures ts departures destinationSites earliestTime transferSiteId =
     take 5 (connections_loop ts destinationSites earliestTime transferSiteId [] (take 10 departures))"

text \<open>
  The loop over the connections of one stop in \<open>findTransferChainCached\<close>. The flag of
  the result says that the function returned from inside the loop, with two routes.
\<close>

fun emit_loop :: "(connection \<Rightarrow> route_plan option) \<Rightarrow> int \<Rightarrow> route_plan list \<Rightarrow> connection list
    \<Rightarrow> route_plan list \<times> bool" where
  "emit_loop create estimatedTime transferRoutes [] = (transferRoutes, False)"
| "emit_loop create estimatedTime transferRoutes (conn # rest) =
     (if seconds_between (c_departureTime conn) estimatedTime \<ge> 60 then
        (case create conn of
           None \<Rightarrow> emit_loop create estimatedTime transferRoutes rest
         | Some transferRoute \<Rightarrow>
             if length (transferRoutes @ [transferRoute]) \<ge> 2
             then (transferRoutes @ [transferRoute], True)
             else emit_loop create estimatedTime (transferRoutes @ [transferRoute]) rest)
      else emit_loop create estimatedTime transferRoutes rest)"

text \<open>
  The loop over the stops, \<open>for (let stepCount = 0; stepCount < 10; stepCount++)\<close>, with
  the number of steps left as first argument. The result is the list of routes and the
  list of the stops that the agent walked to (the successful next-stop lookups).
\<close>

fun chain_loop :: "nat \<Rightarrow> transit_store \<Rightarrow> query_agent \<Rightarrow> site list \<Rightarrow> real \<Rightarrow> string
    \<Rightarrow> (int \<times> departure list) list \<Rightarrow> int \<Rightarrow> int \<Rightarrow> route_plan list \<Rightarrow> route_plan list \<times> int list" where
  "chain_loop 0 ts agent destinationSites maxDuration gviMonth cache currentStopId estimatedTime transferRoutes =
     (transferRoutes, [])"
| "chain_loop (Suc stepsLeft) ts agent destinationSites maxDuration gviMonth cache currentStopId estimatedTime transferRoutes =
     (case next_stop ts (qa_lineId agent) (qa_directionCode agent) currentStopId of
        None \<Rightarrow> (transferRoutes, [])
      | Some nextStopInfo \<Rightarrow>
          let avgStopTime = 90 * 1000;
              estimatedTime' = estimatedTime + avgStopTime;
              transferTime = estimatedTime' + 60 * 1000;
              totalTimeUsed = seconds_between transferTime (qa_nominalTime agent)
          in if totalTimeUsed > maxDuration then (transferRoutes, [next_stop_point_id nextStopInfo])
             else
               let cachedDepartures =
                     (case next_site_id nextStopInfo of
                        None \<Rightarrow> []
                      | Some sid \<Rightarrow> (case map_of cache sid of None \<Rightarrow> [] | Some deps \<Rightarrow> deps));
                   connections = findConnectionsFromCachedDepartures ts cachedDepartures
                       destinationSites transferTime (next_site_id nextStopInfo);
                   nextStopSite = \<lparr>si_stop_point_id = None, si_site_id = next_site_id nextStopInfo,
                       si_stop_name = next_name nextStopInfo, si_lat = None, si_lon = None\<rparr>
               in case emit_loop (\<lambda>conn. createTransferRoutePlan ts agent nextStopSite conn
                                    maxDuration estimatedTime' gviMonth)
                         estimatedTime' transferRoutes (take 2 connections) of
                    (routes, True) \<Rightarrow> (routes, [next_stop_point_id nextStopInfo])
                  | (routes, False) \<Rightarrow>
                      (case chain_loop stepsLeft ts agent destinationSites maxDuration gviMonth cache
                              (next_stop_point_id nextStopInfo) estimatedTime' routes of
                         (result, walked) \<Rightarrow> (result, next_stop_point_id nextStopInfo # walked)))"

definition transfer_chain :: "transit_store \<Rightarrow> query_agent \<Rightarrow> site list \<Rightarrow> real \<Rightarrow> string
    \<Rightarrow> (int \<times> departure list) list \<Rightarrow> route_plan list \<times> int list" where
  "transfer_chain ts agent destinationSites maxDuration gviMonth cache =
     chain_loop 10 ts agent destinationSites maxDuration gviMonth cache
       (qa_currentStopId agent) (qa_nominalTime agent) []"

definition findTransferChainCached :: "transit_store \<Rightarrow> query_agent \<Rightarrow> site list \<Rightarrow> real \<Rightarrow> string
    \<Rightarrow> (int \<times> departure list) list \<Rightarrow> route_plan list" where
  "findTransferChainCached ts agent destinationSites maxDuration gviMonth cache =
     fst (transfer_chain ts agent destinationSites maxDuration gviMonth cache)"

text \<open>The query agents: at most ten per origin site, in the order of the departures.\<close>

definition agents_of :: "transit_store \<Rightarrow> site list \<Rightarrow> (int \<times> departure list) list \<Rightarrow> query_agent list" where
  "agents_of ts originSites originDepartures =
     concat (map (\<lambda>(sid, departures).
        concat (map (\<lambda>dep.
           if \<not> truthy_id (journey_id dep) \<or> \<not> truthy_id (stop_point_id dep) then []
           else (case stop_points ts (the (stop_point_id dep)) of
                   None \<Rightarrow> []
                 | Some departureStopInfo \<Rightarrow>
                     [\<lparr>qa_journeyId = the (journey_id dep),
                       qa_lineId = (case dep_line dep of None \<Rightarrow> None | Some l \<Rightarrow> line_id l),
                       qa_directionCode = direction_code dep,
                       qa_currentStopId = the (stop_point_id dep),
                       qa_nominalTime = expected dep,
                       qa_expectedTime = expected dep,
                       qa_originSite = find (\<lambda>s. siteId s = sid) originSites,
                       qa_departureStopInfo = departureStopInfo\<rparr>]))
          (take 10 departures))) originDepartures)"

text \<open>The loop over the agents, which stops once 20 routes or more are collected.\<close>

fun agents_loop :: "(query_agent \<Rightarrow> route_plan list) \<Rightarrow> route_plan list \<Rightarrow> query_agent list
    \<Rightarrow> route_plan list" where
  "agents_loop chain transferRoutes [] = transferRoutes"
| "agents_loop chain transferRoutes (agent # rest) =
     (if length (transferRoutes @ chain agent) \<ge> 20 then transferRoutes @ chain agent
      else agents_loop chain (transferRoutes @ chain agent) rest)"

definition findTransferRoutes :: "transit_store \<Rightarrow> site list \<Rightarrow> site list \<Rightarrow> int \<Rightarrow> real \<Rightarrow> string
    \<Rightarrow> (int \<times> departure list) list \<Rightarrow> route_plan list" where
  "findTransferRoutes ts originSites destinationSites currentTime maxDuration gviMonth departuresCache =
     agents_loop (\<lambda>agent. findTransferChainCached ts agent destinationSites maxDuration gviMonth
                    departuresCache)
       [] (agents_of ts originSites (site_departures originSites departuresCache))"

text \<open>
  A small transit network for running the transfer search. Line 1 goes from stop 101
  (site 2) to stop 100 (site 1) and on to stop 200 of the hub (site 20), where it ends. Two
  other journeys leave the hub, from the stops 201 and 202, and reach site 30.
\<close>

definition stop_at :: "int \<Rightarrow> int \<Rightarrow> stop_info" where
  "stop_at i s = \<lparr>si_stop_point_id = Some i, si_site_id = Some s, si_stop_name = ''stop'',
     si_lat = Some 0, si_lon = Some 0\<rparr>"

definition demo_transit :: transit_store where
  "demo_transit = \<lparr>nearby_sites = (\<lambda>p. []),
     stop_points = (\<lambda>i. if i = 100 then Some (stop_at 100 1)
                        else if i = 101 then Some (stop_at 101 2)
                        else if i = 201 then Some (stop_at 201 20)
                        else if i = 202 then Some (stop_at 202 20) else None),
     next_stop = (\<lambda>l d s.
        if l = Some 1 \<and> d = Some 1 \<and> s = 101
        then Some \<lparr>next_stop_point_id = 100, next_site_id = Some 1, next_name = ''First''\<rparr>
        else if l = Some 1 \<and> d = Some 1 \<and> s = 100
        then Some \<lparr>next_stop_point_id = 200, next_site_id = Some 20, next_name = ''Hub''\<rparr>
        else None),
     journey_destinations = (\<lambda>l d s ds.
        if s = 201 \<or> s = 202 then filter (\<lambda>x. x \<in> set ds) [30] else []),
     bus_ride_roads = (\<lambda>a b. None)\<rparr>"

definition site_at :: "int \<Rightarrow> real \<Rightarrow> site" where
  "site_at i w = \<lparr>siteId = i, siteName = ''site'', site_lat = 0, site_lon = 0, walkingDistance = w\<rparr>"

text \<open>A bus departure of a line, direction 1: line, journey, stop point, time in
  milliseconds.\<close>

definition dep_at :: "int \<Rightarrow> int \<Rightarrow> int \<Rightarrow> int \<Rightarrow> departure" where
  "dep_at l j s t = \<lparr>journey_id = Some j,
     dep_line = Some \<lparr>line_id = Some l, line_designation = ''bus'', transport_mode = ''BUS''\<rparr>,
     direction_code = Some 1, stop_point_id = Some s, stop_point_name = ''stop'', expected = t,
     destination = ''end''\<rparr>"

text \<open>
  The cached departures. At site 1, line 1 leaves stop 100 at 200 s and nine more times
  between 0 s and 8 s; at site 2 it leaves stop 101 at 0 s; at the hub, line 7 leaves stop
  201 at 300 s and line 8 leaves stop 202 at 400 s.
\<close>

definition demo_cache :: "(int \<times> departure list) list" where
  "demo_cache =
     [(1, dep_at 1 11 100 200000 # map (\<lambda>k. dep_at 1 (12 + int k) 100 (1000 * int k)) [0..<9]),
      (2, [dep_at 1 21 101 0]),
      (20, [dep_at 7 31 201 300000, dep_at 8 32 202 400000])]"

text \<open>An agent that boarded line 1 at stop 100 at time 0, coming from site 1.\<close>

definition demo_agent :: query_agent where
  "demo_agent = \<lparr>qa_journeyId = 12, qa_lineId = Some 1, qa_directionCode = Some 1,
     qa_currentStopId = 100, qa_nominalTime = 0, qa_expectedTime = 0,
     qa_originSite = Some (site_at 1 140), qa_departureStopInfo = stop_at 100 1\<rparr>"

text \<open>The road table has no negative length.\<close>

definition lengths_nonneg :: "spatial_store \<Rightarrow> bool" where
  "lengths_nonneg db = (\<forall>road \<in> set (roads db). case snd road of None \<Rightarrow> True | Some L \<Rightarrow> 0 \<le> L)"

chapter \<open>Properties\<close>

section \<open>Transit feed client\<close>

lemma string_of_nat_1200: "string_of_nat 1200 = ''1200''"
  by code_simp

lemma list_all_filter_self: "list_all P (filter P xs)"
  by (induction xs) auto

lemma batch_loop_keys:
  "fst ` set (batch_loop api f i siteIds results) = set siteIds \<union> fst ` set results"
  by (induction siteIds arbitrary: i results) (auto simp: AList.dom_update)

lemma batch_loop_keeps:
  "s \<notin> set siteIds \<Longrightarrow> map_of (batch_loop api f i siteIds results) s = map_of results s"
  by (induction siteIds arbitrary: i results) (auto simp: AList.update_conv')

lemma batch_loop_last:
  "j < length siteIds \<Longrightarrow> siteIds ! j \<notin> set (drop (Suc j) siteIds) \<Longrightarrow>
   map_of (batch_loop api f i siteIds results) (siteIds ! j)
     = Some (getDepartures api (i + j) (siteIds ! j) f)"
proof (induction siteIds arbitrary: i j results)
  case Nil
  then show ?case by simp
next
  case (Cons s rest)
  show ?case
  proof (cases j)
    case 0
    with Cons.prems show ?thesis
      by (simp add: batch_loop_keeps AList.update_conv')
  next
    case (Suc k)
    with Cons.prems have "k < length rest" "rest ! k \<notin> set (drop (Suc k) rest)"
      by simp_all
    from Cons.IH [OF this] Suc show ?thesis by simp
  qed
qed

text \<open>
  C10. The result of \<open>getDepartures\<close> does not depend on \<open>forecastLimit\<close>: two calls that
  differ only in this argument build the same URL, whose forecast window is 1200 seconds,
  and return the same list, which holds bus-mode departures only.
\<close>

theorem getDepartures_ignores_forecastLimit:
  "departures_url sid f1 = departures_url sid f2
   \<and> departures_url sid f1
       = ''https://transport.integration.sl.se/v1/sites/'' @ string_of_int sid
           @ ''/departures?forecast=1200''
   \<and> getDepartures api n sid f1 = getDepartures api n sid f2
   \<and> list_all is_bus (getDepartures api n sid f1)"
proof -
  have u: "departures_url sid f1
       = ''https://transport.integration.sl.se/v1/sites/'' @ string_of_int sid
           @ ''/departures?forecast=1200''" for f1
    unfolding departures_url_def Let_def baseUrl_def string_of_int_def
    using string_of_nat_1200 by simp
  have e: "getDepartures api n sid f1 = getDepartures api n sid f2"
    unfolding getDepartures_def departures_url_def Let_def by simp
  have b: "list_all is_bus (getDepartures api n sid f1)"
    by (simp add: getDepartures_def list_all_filter_self
        split: axios_outcome.split response_data.split option.split)
  have "departures_url sid f1 = departures_url sid f2"
    by (simp only: u)
  with u [of f1] e b show ?thesis by blast
qed

lemma getDepartures_failed:
  "request_failed (api n (departures_url s f)) \<Longrightarrow> getDepartures api n s f = []"
  by (auto simp: request_failed_def getDepartures_def split: axios_outcome.splits)

text \<open>
  C6. \<open>getBatchDepartures\<close> is a total function of the feed, so it never fails as a whole.
  An empty list of site ids gives the empty map; the keys of the result are exactly the
  requested site ids; the entry of a site is what \<open>getDepartures\<close> returned for its (last)
  request, and it is the empty list when that request failed, whatever happened to the
  requests of the other sites.
\<close>

theorem getBatchDepartures_partial_failures:
  "getBatchDepartures api [] f = []
   \<and> fst ` set (getBatchDepartures api siteIds f) = set siteIds
   \<and> (\<forall>j < length siteIds. siteIds ! j \<notin> set (drop (Suc j) siteIds) \<longrightarrow>
         map_of (getBatchDepartures api siteIds f) (siteIds ! j)
           = Some (getDepartures api j (siteIds ! j) f)
         \<and> (request_failed (api j (departures_url (siteIds ! j) f)) \<longrightarrow>
              map_of (getBatchDepartures api siteIds f) (siteIds ! j) = Some []))"
proof -
  have 1: "getBatchDepartures api [] f = []"
    by (simp add: getBatchDepartures_def)
  have 2: "fst ` set (getBatchDepartures api siteIds f) = set siteIds"
    by (simp add: getBatchDepartures_def batch_loop_keys)
  have 3: "map_of (getBatchDepartures api siteIds f) (siteIds ! j)
           = Some (getDepartures api j (siteIds ! j) f)"
    if "j < length siteIds" "siteIds ! j \<notin> set (drop (Suc j) siteIds)" for j
    using batch_loop_last [OF that, of api f 0 "[]"] by (simp add: getBatchDepartures_def)
  from 1 2 3 show ?thesis
    by (auto simp: getDepartures_failed)
qed

text \<open>
  The theorem on a feed whose first request is rejected and whose second request is
  answered: site 9001 gets the empty list, site 9002 its bus departure.
\<close>

theorem getBatchDepartures_partial_failures_witness:
  "map_of (getBatchDepartures
      (\<lambda>n url. if n = 0 then Rejected else Resolved 200 (Data (Some [bus_dep])))
      [9001, 9002] 1200) 9001 = Some []
   \<and> map_of (getBatchDepartures
      (\<lambda>n url. if n = 0 then Rejected else Resolved 200 (Data (Some [bus_dep])))
      [9001, 9002] 1200) 9002 = Some [bus_dep]"
proof -
  let ?api = "\<lambda>(n::nat) (url::string).
      if n = 0 then Rejected else Resolved 200 (Data (Some [bus_dep]))"
  note t = getBatchDepartures_partial_failures [of ?api 1200 "[9001, 9002]",
      THEN conjunct2, THEN conjunct2, rule_format]
  have a: "map_of (getBatchDepartures ?api [9001, 9002] 1200) 9001 = Some []"
    using t [of 0] by (simp add: request_failed_def getDepartures_def)
  have b: "map_of (getBatchDepartures ?api [9001, 9002] 1200) 9002 = Some [bus_dep]"
    using t [of 1] by (simp add: getDepartures_def is_bus_def bus_dep_def)
  from a b show ?thesis by simp
qed

section \<open>DGVI evaluator\<close>

lemma matched_gvi_points_none:
  "no_gvi_point_in_buffer db r m \<Longrightarrow> matched_gvi_points db r m = []"
  by (auto simp: no_gvi_point_in_buffer_def matched_gvi_points_def split: option.splits)

lemma points_with_endpoints_Nil: "points_with_endpoints [] = [(0, 0), (1, 0)]"
  by (simp add: points_with_endpoints_def)

text \<open>
  C1, as stated, fails: on a store whose only road is 100 meters long and which holds no
  GVI point of August 2025 near it, the per-edge DGVI is \<open>-100\<close>, not 0.
\<close>

theorem calculateSegmentDGVI_unmatched_counterexample:
  "no_gvi_point_in_buffer sparse_store 1 ''2025-08''
   \<and> calculateSegmentDGVI sparse_store 1 ''2025-08'' = - 100
   \<and> calculateSegmentDGVI sparse_store 1 ''2025-08'' \<noteq> 0"
  by (simp add: calculateSegmentDGVI_def segment_dgvi_query_def no_gvi_point_in_buffer_def
        matched_gvi_points_def points_with_endpoints_def interval_term_def sql_sum_def
        sparse_store_def)

text \<open>
  C1, amended. When no GVI point of the month lies in the 1-meter buffer of the edge, both
  endpoints are synthesized with gvi 0, the single interval contributes
  \<open>(1 - 0) * L * ((0 + 0) / 2 - 1)\<close>, and \<open>calculateSegmentDGVI\<close> returns \<open>- L\<close> for
  an edge of length \<open>L\<close>. It returns 0 when the edge is missing, when its length is
  \<open>NULL\<close>, and when the query throws.
\<close>

theorem calculateSegmentDGVI_unmatched:
  "no_gvi_point_in_buffer db roadId month \<Longrightarrow>
   calculateSegmentDGVI db roadId month =
     (if query_error db roadId month then 0
      else case map_of (roads db) roadId of Some (Some L) \<Rightarrow> - L | _ \<Rightarrow> 0)"
  by (simp add: calculateSegmentDGVI_def segment_dgvi_query_def matched_gvi_points_none
        points_with_endpoints_Nil interval_term_def sql_sum_def split: option.splits)

text \<open>
  The amended statement on road 2 of the store with two roads, which has no GVI point of
  July 2025 in its buffer and is 40 meters long.
\<close>

theorem calculateSegmentDGVI_unmatched_witness:
  "no_gvi_point_in_buffer sparse_store 2 ''2025-07''
   \<and> calculateSegmentDGVI sparse_store 2 ''2025-07'' = - 40"
proof -
  have h: "no_gvi_point_in_buffer sparse_store 2 ''2025-07''"
    by (simp add: no_gvi_point_in_buffer_def sparse_store_def)
  from calculateSegmentDGVI_unmatched [OF h] h show ?thesis
    by (simp add: sparse_store_def)
qed

subsection \<open>The per-month rebuild\<close>

lemma concat_batches: "0 < n \<Longrightarrow> concat (batches n xs) = xs"
proof (induction n xs rule: batches.induct)
  case (1 n xs)
  then show ?case by (subst batches.simps) auto
qed

lemma fst_fold_process_road:
  "fst (fold (process_road db m) ids st) = calc_upserts db m ids (fst st)"
  unfolding calc_upserts_def
  by (induction ids arbitrary: st) (auto simp: process_road_def Let_def split: prod.splits)

lemma fold_batches:
  "fold (\<lambda>batch st. fold f batch st) bs st = fold f (concat bs) st"
  by (induction bs arbitrary: st) auto

lemma fst_updateAllRoadDGVI:
  "fst (updateAllRoadDGVI db m tbl) = normalize_month m (calc_upserts db m (sort (map fst (roads db))) tbl)"
  by (simp add: updateAllRoadDGVI_def Let_def fold_batches concat_batches fst_fold_process_road)

lemma upsert_keys: "fst ` set (upsert_dgvi r m d tbl) = insert (r, m) (fst ` set tbl)"
  by (force simp: upsert_dgvi_def split: if_splits)

lemma upsert_rows:
  "(k, row) \<in> set (upsert_dgvi r m d tbl) \<Longrightarrow>
     (k = (r, m) \<and> dgvi row = Some d) \<or> (k \<noteq> (r, m) \<and> (k, row) \<in> set tbl)"
  by (force simp: upsert_dgvi_def split: if_splits)

lemma upsert_settled:
  "settled c m S tbl \<Longrightarrow> settled c m (insert r S) (upsert_dgvi r m (c r) tbl)"
  unfolding settled_def
  by (auto simp: upsert_keys dest!: upsert_rows)

lemma upsert_same:
  assumes "settled c m {r} tbl"
  shows "upsert_dgvi r m (c r) tbl = tbl"
proof -
  have "(r, m) \<in> fst ` set tbl" using assms by (simp add: settled_def)
  moreover have "map (\<lambda>(k, row). if k = (r, m) then (k, row\<lparr>dgvi := Some (c r)\<rparr>) else (k, row)) tbl = tbl"
    using assms by (intro map_idI) (auto simp: settled_def)
  ultimately show ?thesis by (simp add: upsert_dgvi_def)
qed

lemma settled_mono: "settled c m S tbl \<Longrightarrow> T \<subseteq> S \<Longrightarrow> settled c m T tbl"
  by (auto simp: settled_def)

lemma fold_upsert_settled:
  "settled c m S tbl \<Longrightarrow> settled c m (S \<union> set ids) (fold (\<lambda>r. upsert_dgvi r m (c r)) ids tbl)"
proof (induction ids arbitrary: S tbl)
  case Nil
  then show ?case by simp
next
  case (Cons r ids)
  from Cons.IH [OF upsert_settled [OF Cons.prems, of r]] show ?case by simp
qed

lemma fold_upsert_same:
  "settled c m (set ids) tbl \<Longrightarrow> fold (\<lambda>r. upsert_dgvi r m (c r)) ids tbl = tbl"
proof (induction ids arbitrary: tbl)
  case Nil
  then show ?case by simp
next
  case (Cons r ids)
  have "upsert_dgvi r m (c r) tbl = tbl"
    by (rule upsert_same) (rule settled_mono [OF Cons.prems], simp)
  moreover have "settled c m (set ids) tbl"
    by (rule settled_mono [OF Cons.prems]) auto
  ultimately show ?case using Cons.IH by simp
qed

lemma normalize_keys: "map fst (normalize_month m tbl) = map fst tbl"
  by (auto simp: normalize_month_def Let_def split: prod.splits)

lemma normalize_rows:
  "(k, row) \<in> set (normalize_month m tbl) \<Longrightarrow> \<exists>row0. (k, row0) \<in> set tbl \<and> dgvi row = dgvi row0"
  by (auto simp: normalize_month_def Let_def split: if_splits)

lemma normalize_settled: "settled c m S tbl \<Longrightarrow> settled c m S (normalize_month m' tbl)"
proof -
  have "fst ` set (normalize_month m' tbl) = fst ` set tbl"
    using normalize_keys [of m' tbl] by (metis set_map)
  then show "settled c m S tbl \<Longrightarrow> settled c m S (normalize_month m' tbl)"
    unfolding settled_def by (metis normalize_rows)
qed

lemma month_dgvis_normalize: "month_dgvis (normalize_month m tbl) m' = month_dgvis tbl m'"
proof -
  have "month_dgvis (map (\<lambda>(k, row). if snd k = m then (k, row\<lparr>dgvi_normalized := g row\<rparr>) else (k, row)) tbl) m' = month_dgvis tbl m'" for g
    by (induction tbl) (auto simp: month_dgvis_def)
  then show ?thesis
    by (simp add: normalize_month_def Let_def)
qed

lemma normalize_idem: "normalize_month m (normalize_month m tbl) = normalize_month m tbl"
  apply (subst (1) normalize_month_def)
  apply (simp add: month_dgvis_normalize Let_def)
  apply (simp add: normalize_month_def Let_def)
  apply (auto split: prod.splits)
  done

lemma sql_min_le: "x \<in> set xs \<Longrightarrow> \<exists>lo. sql_min xs = Some lo \<and> lo \<le> x"
  by (induction xs) (auto split: option.splits)

lemma sql_max_ge: "x \<in> set xs \<Longrightarrow> \<exists>hi. sql_max xs = Some hi \<and> x \<le> hi"
  by (induction xs) (auto split: option.splits)

lemma normalized_value_bounds:
  assumes "x \<in> set xs"
  shows "\<exists>v. normalized_value (sql_min xs) (sql_max xs) (Some x) = Some v \<and> 0 \<le> v \<and> v \<le> 1
           \<and> (sql_min xs = sql_max xs \<longrightarrow> v = 0)"
proof -
  from sql_min_le [OF assms] obtain lo where lo: "sql_min xs = Some lo" "lo \<le> x" by blast
  from sql_max_ge [OF assms] obtain hi where hi: "sql_max xs = Some hi" "x \<le> hi" by blast
  show ?thesis
  proof (cases "hi = lo")
    case True
    with lo hi show ?thesis by (simp add: normalized_value_def)
  next
    case False
    with lo hi have "lo < hi" by simp
    with lo hi have "0 \<le> (x - lo) / (hi - lo)" "(x - lo) / (hi - lo) \<le> 1"
      by (simp_all add: divide_le_eq)
    with lo hi False show ?thesis by (auto simp: normalized_value_def)
  qed
qed

lemma normalize_month_rows:
  "(k, row) \<in> set (normalize_month m tbl) \<Longrightarrow> snd k = m \<Longrightarrow>
   \<exists>row0. (k, row0) \<in> set tbl \<and>
      dgvi_normalized row = normalized_value (sql_min (month_dgvis tbl m)) (sql_max (month_dgvis tbl m)) (dgvi row0)"
  by (auto simp: normalize_month_def Let_def split: if_splits)

lemma month_dgvis_mem:
  "(k, row) \<in> set tbl \<Longrightarrow> snd k = m \<Longrightarrow> dgvi row = Some x \<Longrightarrow> x \<in> set (month_dgvis tbl m)"
  by (induction tbl) (auto simp: month_dgvis_def)

lemma calc_upserts_keys:
  "fst ` set (calc_upserts db m ids tbl) = fst ` set tbl \<union> (\<lambda>r. (r, m)) ` set ids"
  unfolding calc_upserts_def
  by (induction ids arbitrary: tbl) (auto simp: upsert_keys)

lemma calc_upserts_settled:
  "settled (\<lambda>r. calculateSegmentDGVI db r m) m (set ids) (calc_upserts db m ids tbl)"
  using fold_upsert_settled [of "\<lambda>r. calculateSegmentDGVI db r m" m "{}" tbl ids]
  by (simp add: calc_upserts_def settled_def)

text \<open>
  C8. Running the rebuild of a month a second time leaves every row of the table as the
  first run left it (idempotence). After a rebuild of a table that respects the foreign
  key, every row of that month has a normalized value in \<open>[0, 1]\<close>, and the value is 0
  when the least and the greatest dgvi of the month are equal.
\<close>

theorem updateAllRoadDGVI_idempotent_normalized:
  assumes fk: "foreign_key_ok db tbl"
  shows "fst (updateAllRoadDGVI db month (fst (updateAllRoadDGVI db month tbl)))
           = fst (updateAllRoadDGVI db month tbl)
         \<and> (\<forall>(k, row) \<in> set (fst (updateAllRoadDGVI db month tbl)). snd k = month \<longrightarrow>
               (\<exists>v. dgvi_normalized row = Some v \<and> 0 \<le> v \<and> v \<le> 1
                  \<and> (sql_min (month_dgvis (fst (updateAllRoadDGVI db month tbl)) month)
                        = sql_max (month_dgvis (fst (updateAllRoadDGVI db month tbl)) month)
                      \<longrightarrow> v = 0)))"
proof -
  let ?c = "\<lambda>r. calculateSegmentDGVI db r month"
  let ?ids = "sort (map fst (roads db))"
  let ?T = "calc_upserts db month ?ids tbl"
  have st: "settled ?c month (set ?ids) ?T"
    by (rule calc_upserts_settled)
  have "settled ?c month (set ?ids) (normalize_month month ?T)"
    by (rule normalize_settled [OF st])
  then have "calc_upserts db month ?ids (normalize_month month ?T) = normalize_month month ?T"
    unfolding calc_upserts_def by (rule fold_upsert_same)
  then have idem: "fst (updateAllRoadDGVI db month (fst (updateAllRoadDGVI db month tbl)))
           = fst (updateAllRoadDGVI db month tbl)"
    by (simp add: fst_updateAllRoadDGVI normalize_idem)
  have bounds: "\<exists>v. dgvi_normalized row = Some v \<and> 0 \<le> v \<and> v \<le> 1
                  \<and> (sql_min (month_dgvis (normalize_month month ?T) month)
                        = sql_max (month_dgvis (normalize_month month ?T) month) \<longrightarrow> v = 0)"
    if mem: "(k, row) \<in> set (normalize_month month ?T)" and km: "snd k = month" for k row
  proof -
    from normalize_month_rows [OF mem km] obtain row0 where
      r0: "(k, row0) \<in> set ?T"
      and nv: "dgvi_normalized row = normalized_value (sql_min (month_dgvis ?T month))
                 (sql_max (month_dgvis ?T month)) (dgvi row0)"
      by blast
    from r0 have "k \<in> fst ` set ?T" by force
    then have "k \<in> fst ` set tbl \<union> (\<lambda>r. (r, month)) ` set ?ids"
      by (simp only: calc_upserts_keys)
    with fk have "fst k \<in> set ?ids"
      by (force simp: foreign_key_ok_def)
    moreover from km have "k = (fst k, month)" by (cases k) simp
    ultimately have "dgvi row0 = Some (?c (fst k))"
      using st r0 unfolding settled_def by metis
    moreover from this r0 km have "?c (fst k) \<in> set (month_dgvis ?T month)"
      by (intro month_dgvis_mem [of k row0]) simp_all
    ultimately show ?thesis
      using normalized_value_bounds [of "?c (fst k)" "month_dgvis ?T month"] nv
      by (simp add: month_dgvis_normalize)
  qed
  from idem bounds show ?thesis
    by (auto simp: fst_updateAllRoadDGVI)
qed

text \<open>
  The theorem on the store with two roads: the rebuild of August 2025 gives the rows below,
  and a second rebuild changes nothing.
\<close>

theorem updateAllRoadDGVI_idempotent_normalized_witness:
  "foreign_key_ok sparse_store old_table
   \<and> fst (updateAllRoadDGVI sparse_store ''2025-08'' old_table)
       = [((1, ''2025-07''), \<lparr>dgvi = None, dgvi_normalized = Some 1\<rparr>),
          ((1, ''2025-08''), \<lparr>dgvi = Some (- 100), dgvi_normalized = Some 0\<rparr>),
          ((2, ''2025-08''), \<lparr>dgvi = Some (- 40), dgvi_normalized = Some 1\<rparr>)]
   \<and> fst (updateAllRoadDGVI sparse_store ''2025-08''
            (fst (updateAllRoadDGVI sparse_store ''2025-08'' old_table)))
       = fst (updateAllRoadDGVI sparse_store ''2025-08'' old_table)"
proof -
  have h: "foreign_key_ok sparse_store old_table"
    by (simp add: foreign_key_ok_def sparse_store_def old_table_def)
  have u: "calc_upserts sparse_store ''2025-08'' (sort (map fst (roads sparse_store))) old_table
       = [((1, ''2025-07''), \<lparr>dgvi = None, dgvi_normalized = Some 1\<rparr>),
          ((1, ''2025-08''), \<lparr>dgvi = Some (- 100), dgvi_normalized = None\<rparr>),
          ((2, ''2025-08''), \<lparr>dgvi = Some (- 40), dgvi_normalized = None\<rparr>)]"
    by (simp add: calc_upserts_def sparse_store_def old_table_def upsert_dgvi_def
          calculateSegmentDGVI_def segment_dgvi_query_def matched_gvi_points_def
          points_with_endpoints_def interval_term_def sql_sum_def)
  have v: "fst (updateAllRoadDGVI sparse_store ''2025-08'' old_table)
       = [((1, ''2025-07''), \<lparr>dgvi = None, dgvi_normalized = Some 1\<rparr>),
          ((1, ''2025-08''), \<lparr>dgvi = Some (- 100), dgvi_normalized = Some 0\<rparr>),
          ((2, ''2025-08''), \<lparr>dgvi = Some (- 40), dgvi_normalized = Some 1\<rparr>)]"
    by (simp add: fst_updateAllRoadDGVI u normalize_month_def month_dgvis_def
          normalized_value_def)
  from updateAllRoadDGVI_idempotent_normalized [OF h, of "''2025-08''"]
  have "fst (updateAllRoadDGVI sparse_store ''2025-08''
            (fst (updateAllRoadDGVI sparse_store ''2025-08'' old_table)))
       = fst (updateAllRoadDGVI sparse_store ''2025-08'' old_table)"
    by (rule conjunct1)
  with h v show ?thesis by (simp only: simp_thms)
qed

section \<open>Walking candidates\<close>

lemma dedup_loop_fresh:
  "r \<in> set (dedup_loop seen rs) \<Longrightarrow> fingerprint r \<notin> set seen"
proof (induction rs arbitrary: seen)
  case Nil
  then show ?case by simp
next
  case (Cons c rs)
  show ?case
  proof (cases "fingerprint c \<in> set seen")
    case True
    with Cons show ?thesis by simp
  next
    case False
    with Cons.prems consider "r = c" | "r \<in> set (dedup_loop (fingerprint c # seen) rs)"
      by auto
    then show ?thesis
    proof cases
      case 1
      with False show ?thesis by simp
    next
      case 2
      from Cons.IH [OF 2] show ?thesis by simp
    qed
  qed
qed

lemma subseq_take_self: "subseq (take n xs) xs"
  by (metis append_take_drop_id subseq_order.order_refl list_emb_append2 list_emb_append_mono list_emb_Nil append_Nil2)

lemma dedup_loop_distinct: "distinct (map fingerprint (dedup_loop seen rs))"
  by (induction rs arbitrary: seen) (auto dest: dedup_loop_fresh)

lemma dedup_loop_subseq: "subseq (dedup_loop seen rs) rs"
  by (induction rs arbitrary: seen) auto

lemma dedup_loop_first:
  "r \<in> set (dedup_loop seen rs) \<Longrightarrow> find (\<lambda>c. fingerprint c = fingerprint r) rs = Some r"
proof (induction rs arbitrary: seen)
  case Nil
  then show ?case by simp
next
  case (Cons c rs)
  show ?case
  proof (cases "fingerprint c \<in> set seen")
    case True
    with Cons.prems have m: "r \<in> set (dedup_loop seen rs)" by simp
    from dedup_loop_fresh [OF m] True have "fingerprint c \<noteq> fingerprint r" by auto
    with Cons.IH [OF m] show ?thesis by simp
  next
    case False
    with Cons.prems consider "r = c" | "r \<in> set (dedup_loop (fingerprint c # seen) rs)"
      by auto
    then show ?thesis
    proof cases
      case 1
      then show ?thesis by simp
    next
      case 2
      from dedup_loop_fresh [OF 2] have "fingerprint c \<noteq> fingerprint r" by auto
      with Cons.IH [OF 2] show ?thesis by simp
    qed
  qed
qed

lemma dedup_loop_image:
  "fingerprint ` set (dedup_loop seen rs) = fingerprint ` set rs - set seen"
  by (induction rs arbitrary: seen) auto

lemma walking_candidates_order:
  "subseq (map strategy (walking_candidates db g orig dest m prefs))
     [Some ''User Preference'', Some ''ASAP'', Some ''GROOT'']"
  by (auto simp: walking_candidates_def strategies_def split: sum.splits)

text \<open>
  Two routes have the same fingerprint exactly when they use the same road ids the same
  number of times, that is, when their numerically sorted id lists are equal: the string
  order of the default sort does not matter for deduplication.
\<close>

lemma of_char_digit: "d < 10 \<Longrightarrow> of_char (digit_char d) = 48 + d"
  by (simp add: digit_char_def)

lemma digit_char_plain: "d < 10 \<Longrightarrow> digit_char d \<noteq> CHR '','' \<and> digit_char d \<noteq> CHR ''-''"
proof -
  assume d: "d < 10"
  have "(of_char (digit_char d) :: nat) \<noteq> of_char (CHR '','')"
    using d by (simp add: of_char_digit)
  moreover have "(of_char (digit_char d) :: nat) \<noteq> of_char (CHR ''-'')"
    using d by (simp add: of_char_digit)
  ultimately show ?thesis by auto
qed

lemma digits_value_snoc: "digits_value (s @ [c]) = 10 * digits_value s + (of_char c - 48)"
  by (simp add: digits_value_def)

lemma digits_value_string_of_nat: "digits_value (string_of_nat n) = n"
proof (induction n rule: string_of_nat.induct)
  case (1 n)
  show ?case
  proof (cases "n < 10")
    case True
    then show ?thesis
      by (subst string_of_nat.simps) (simp add: digits_value_def of_char_digit)
  next
    case False
    with 1 have "digits_value (string_of_nat (n div 10)) = n div 10" by simp
    with False show ?thesis
      by (subst string_of_nat.simps) (simp add: digits_value_snoc of_char_digit)
  qed
qed

lemma string_of_nat_plain:
  "string_of_nat n \<noteq> [] \<and> CHR '','' \<notin> set (string_of_nat n) \<and> CHR ''-'' \<notin> set (string_of_nat n)"
proof (induction n rule: string_of_nat.induct)
  case (1 n)
  show ?case
  proof (cases "n < 10")
    case True
    then show ?thesis
      using digit_char_plain [of n] by (subst (1 2 3) string_of_nat.simps) auto
  next
    case False
    with 1 digit_char_plain [of "n mod 10"] show ?thesis
      by (subst (1 2 3) string_of_nat.simps) auto
  qed
qed

lemma string_of_nat_inj: "string_of_nat m = string_of_nat n \<Longrightarrow> m = n"
  by (metis digits_value_string_of_nat)

lemma string_of_int_inj: "inj string_of_int"
proof (rule injI)
  fix i j :: int
  assume e: "string_of_int i = string_of_int j"
  have ne: "string_of_nat n \<noteq> CHR ''-'' # s" "CHR ''-'' # s \<noteq> string_of_nat n" for n s
    using string_of_nat_plain [of n] by (metis list.set_intros(1))+
  show "i = j"
  proof (cases "i < 0"; cases "j < 0")
    assume "i < 0" "j < 0"
    with e have "nat (- i) = nat (- j)"
      by (auto simp: string_of_int_def dest: string_of_nat_inj)
    with \<open>i < 0\<close> \<open>j < 0\<close> show ?thesis by simp
  next
    assume "i < 0" "\<not> j < 0"
    with e ne show ?thesis
      by (auto simp: string_of_int_def)
  next
    assume "\<not> i < 0" "j < 0"
    with e ne show ?thesis
      by (auto simp: string_of_int_def)
  next
    assume "\<not> i < 0" "\<not> j < 0"
    with e have "nat i = nat j"
      by (auto simp: string_of_int_def dest: string_of_nat_inj)
    with \<open>\<not> i < 0\<close> \<open>\<not> j < 0\<close> show ?thesis by simp
  qed
qed

lemma string_of_int_plain: "string_of_int i \<noteq> [] \<and> CHR '','' \<notin> set (string_of_int i)"
  using string_of_nat_plain by (simp add: string_of_int_def)

lemma comma_split:
  assumes "CHR '','' \<notin> set x" "CHR '','' \<notin> set y" "x @ CHR '','' # r = y @ CHR '','' # s"
  shows "x = y \<and> r = s"
proof -
  have "takeWhile (\<lambda>c. c \<noteq> CHR '','') (x @ CHR '','' # r) = x"
    using assms(1) by (auto simp: takeWhile_tail takeWhile_eq_all_conv)
  moreover have "takeWhile (\<lambda>c. c \<noteq> CHR '','') (y @ CHR '','' # s) = y"
    using assms(2) by (auto simp: takeWhile_tail takeWhile_eq_all_conv)
  ultimately have "x = y" using assms(3) by simp
  with assms(3) show ?thesis by simp
qed

lemma js_join_nonempty: "xs \<noteq> [] \<Longrightarrow> \<forall>x \<in> set xs. x \<noteq> [] \<Longrightarrow> js_join xs \<noteq> []"
  by (induction xs rule: js_join.induct) auto

lemma js_join_inj:
  "\<forall>x \<in> set xs \<union> set ys. x \<noteq> [] \<and> CHR '','' \<notin> set x \<Longrightarrow> js_join xs = js_join ys \<Longrightarrow> xs = ys"
proof (induction xs arbitrary: ys rule: js_join.induct)
  case 1
  then show ?case using js_join_nonempty [of ys] by (cases ys) auto
next
  case (2 x)
  show ?case
  proof (cases ys rule: js_join.cases)
    case 1
    with 2 show ?thesis by auto
  next
    case (2 y)
    with "2.prems" show ?thesis by simp
  next
    case (3 y y' ys')
    with "2.prems" have "x = y @ CHR '','' # js_join (y' # ys')" by simp
    then have "CHR '','' \<in> set x" by simp
    with "2.prems" show ?thesis by simp
  qed
next
  case (3 x x' xs)
  show ?case
  proof (cases ys rule: js_join.cases)
    case 1
    with "3.prems" js_join_nonempty [of "x # x' # xs"] show ?thesis by auto
  next
    case (2 y)
    with "3.prems" have "y = x @ CHR '','' # js_join (x' # xs)" by simp
    then have "CHR '','' \<in> set y" by simp
    with "3.prems" 2 show ?thesis by simp
  next
    case c: (3 y y' ys')
    from "3.prems" c have e: "x @ CHR '','' # js_join (x' # xs) = y @ CHR '','' # js_join (y' # ys')"
      by simp
    from "3.prems" c have "CHR '','' \<notin> set x" "CHR '','' \<notin> set y" by auto
    from comma_split [OF this e] have xy: "x = y" and j: "js_join (x' # xs) = js_join (y' # ys')"
      by simp_all
    from "3.prems" c have "\<forall>z \<in> set (x' # xs) \<union> set (y' # ys'). z \<noteq> [] \<and> CHR '','' \<notin> set z"
      by auto
    from "3.IH" [OF this j] xy c show ?thesis by simp
  qed
qed

lemma fingerprint_eq_iff:
  "fingerprint a = fingerprint b \<longleftrightarrow> mset (route_road_ids a) = mset (route_road_ids b)"
proof
  assume "fingerprint a = fingerprint b"
  then have "map string_of_int (sort_key string_of_int (route_road_ids a))
           = map string_of_int (sort_key string_of_int (route_road_ids b))"
    unfolding fingerprint_def
    by (intro js_join_inj) (auto simp: string_of_int_plain)
  then have "sort_key string_of_int (route_road_ids a) = sort_key string_of_int (route_road_ids b)"
    using string_of_int_inj by (simp add: inj_map_eq_map)
  then have "mset (sort_key string_of_int (route_road_ids a))
           = mset (sort_key string_of_int (route_road_ids b))"
    by simp
  then show "mset (route_road_ids a) = mset (route_road_ids b)" by simp
next
  assume "mset (route_road_ids a) = mset (route_road_ids b)"
  then have "sort_key string_of_int (route_road_ids a) = sort_key string_of_int (route_road_ids b)"
    using string_of_int_inj by (intro sort_key_eq_sort_key) (auto intro: inj_on_subset)
  then show "fingerprint a = fingerprint b"
    by (simp add: fingerprint_def)
qed

lemma fingerprint_eq_sorted_ids:
  "fingerprint a = fingerprint b \<longleftrightarrow> sort (route_road_ids a) = sort (route_road_ids b)"
proof -
  have "mset (route_road_ids a) = mset (route_road_ids b)
        \<longleftrightarrow> sort (route_road_ids a) = sort (route_road_ids b)"
  proof
    assume "mset (route_road_ids a) = mset (route_road_ids b)"
    then show "sort (route_road_ids a) = sort (route_road_ids b)"
      by (intro sort_key_eq_sort_key) simp_all
  next
    assume "sort (route_road_ids a) = sort (route_road_ids b)"
    then have "mset (sort (route_road_ids a)) = mset (sort (route_road_ids b))" by simp
    then show "mset (route_road_ids a) = mset (route_road_ids b)" by simp
  qed
  then show ?thesis by (simp add: fingerprint_eq_iff)
qed

lemma dedup_loop_survivors:
  "dedup_loop seen cs =
     map (\<lambda>i. cs ! i)
       (filter (\<lambda>i. fingerprint (cs ! i) \<notin> set seen \<union> fingerprint ` set (take i cs))
          [0..<length cs])"
proof (induction cs arbitrary: seen)
  case Nil
  then show ?case by simp
next
  case (Cons c cs)
  have u: "[0..<length (c # cs)] = 0 # map Suc [0..<length cs]"
    by (simp add: upt_conv_Cons map_Suc_upt del: upt_Suc)
  show ?case
  proof (cases "fingerprint c \<in> set seen")
    case True
    then have "(x \<notin> set seen \<and> x \<noteq> fingerprint c \<and> Q) = (x \<notin> set seen \<and> Q)" for x Q
      by auto
    with True Cons.IH [of seen] show ?thesis
      unfolding u by (simp add: filter_map o_def)
  next
    case False
    have "(x \<noteq> fingerprint c \<and> x \<notin> set seen \<and> Q) = (x \<notin> set seen \<and> x \<noteq> fingerprint c \<and> Q)"
      for x Q
      by auto
    with False Cons.IH [of "fingerprint c # seen"] show ?thesis
      unfolding u by (simp add: filter_map o_def)
  qed
qed

lemma deduplicateRoutes_survivors: "deduplicateRoutes cs = survivors cs"
  by (simp add: deduplicateRoutes_def survivors_def dedup_loop_survivors)

lemma deduplicateRoutes_length:
  "length (deduplicateRoutes cs) = card (fingerprint ` set cs)"
proof -
  have "distinct (map fingerprint (dedup_loop [] cs))"
    by (rule dedup_loop_distinct)
  then have "card (set (map fingerprint (dedup_loop [] cs))) = length (map fingerprint (dedup_loop [] cs))"
    by (rule distinct_card)
  then show ?thesis
    by (simp add: deduplicateRoutes_def dedup_loop_image)
qed

lemma walking_candidates_strategies:
  "map strategy (walking_candidates db g orig dest m prefs)
     = map (\<lambda>(name, pref). Some name)
         (filter (\<lambda>(name, pref). \<not> isl (calculateWalkingRoute db g orig dest m pref))
            (strategies prefs))"
  by (simp add: walking_candidates_def strategies_def split: sum.splits)

text \<open>
  C5. No two returned walking routes have the same fingerprint (the sorted road ids, joined),
  nor the same numerically sorted list of road ids, and at most two routes are returned. The candidates are listed in the order user, ASAP,
  GROOT; the result is a subsequence of them; deduplication loses no fingerprint; and every
  returned route is the first candidate with its fingerprint. The result is exactly the first
  two of the deduplicated candidates, which are the candidates whose fingerprint no earlier
  candidate has, in the order of the candidates; so as many routes are returned as there are
  fingerprints among the candidates, up to two. There is one candidate for each strategy
  whose walking route was computed, in the order of the strategies.
\<close>

theorem generateWalkingCandidates_deduplicated:
  "distinct (map fingerprint (generateWalkingCandidates db g orig dest m prefs))
   \<and> distinct (map (\<lambda>r. sort (route_road_ids r)) (generateWalkingCandidates db g orig dest m prefs))
   \<and> length (generateWalkingCandidates db g orig dest m prefs) \<le> 2
   \<and> subseq (generateWalkingCandidates db g orig dest m prefs)
        (walking_candidates db g orig dest m prefs)
   \<and> subseq (map strategy (walking_candidates db g orig dest m prefs))
        [Some ''User Preference'', Some ''ASAP'', Some ''GROOT'']
   \<and> fingerprint ` set (deduplicateRoutes (walking_candidates db g orig dest m prefs))
        = fingerprint ` set (walking_candidates db g orig dest m prefs)
   \<and> (\<forall>r \<in> set (generateWalkingCandidates db g orig dest m prefs).
         find (\<lambda>c. fingerprint c = fingerprint r) (walking_candidates db g orig dest m prefs) = Some r)
   \<and> generateWalkingCandidates db g orig dest m prefs
        = take 2 (deduplicateRoutes (walking_candidates db g orig dest m prefs))
   \<and> generateWalkingCandidates db g orig dest m prefs
        = first_two_survivors (walking_candidates db g orig dest m prefs)
   \<and> length (generateWalkingCandidates db g orig dest m prefs)
        = min 2 (card (fingerprint ` set (walking_candidates db g orig dest m prefs)))
   \<and> map strategy (walking_candidates db g orig dest m prefs)
        = map (\<lambda>(name, pref). Some name)
            (filter (\<lambda>(name, pref). \<not> isl (calculateWalkingRoute db g orig dest m pref))
               [(''User Preference'', prefs),
                (''ASAP'', \<lparr>pref_time = 1, pref_green = 0\<rparr>),
                (''GROOT'', \<lparr>pref_time = 0, pref_green = 1\<rparr>)])"
proof -
  let ?cs = "walking_candidates db g orig dest m prefs"
  have 1: "distinct (map fingerprint (take 2 (deduplicateRoutes ?cs)))"
    using dedup_loop_distinct [of "[]" ?cs]
    by (simp add: deduplicateRoutes_def take_map [symmetric] distinct_take)
  have 3: "subseq (take 2 (deduplicateRoutes ?cs)) ?cs"
    using dedup_loop_subseq [of "[]" ?cs]
    using subseq_take_self [of 2 "deduplicateRoutes ?cs"]
    by (simp add: deduplicateRoutes_def)
  have 6: "find (\<lambda>c. fingerprint c = fingerprint r) ?cs = Some r"
    if "r \<in> set (take 2 (deduplicateRoutes ?cs))" for r
    using that dedup_loop_first [of r "[]" ?cs]
    by (auto simp: deduplicateRoutes_def dest: in_set_takeD)
  have 2: "distinct (map (\<lambda>r. sort (route_road_ids r)) (take 2 (deduplicateRoutes ?cs)))"
    using 1 unfolding distinct_map
    by (auto simp: inj_on_def fingerprint_eq_sorted_ids)
  have first: "distinct (map fingerprint (generateWalkingCandidates db g orig dest m prefs))
   \<and> distinct (map (\<lambda>r. sort (route_road_ids r)) (generateWalkingCandidates db g orig dest m prefs))
   \<and> length (generateWalkingCandidates db g orig dest m prefs) \<le> 2
   \<and> subseq (generateWalkingCandidates db g orig dest m prefs) ?cs
   \<and> subseq (map strategy ?cs) [Some ''User Preference'', Some ''ASAP'', Some ''GROOT'']
   \<and> fingerprint ` set (deduplicateRoutes ?cs) = fingerprint ` set ?cs
   \<and> (\<forall>r \<in> set (generateWalkingCandidates db g orig dest m prefs).
         find (\<lambda>c. fingerprint c = fingerprint r) ?cs = Some r)"
    unfolding generateWalkingCandidates_def
    using 1 2 3 6 walking_candidates_order [of db g orig dest m prefs]
    by (simp add: deduplicateRoutes_def dedup_loop_image)
  have 8: "generateWalkingCandidates db g orig dest m prefs = take 2 (deduplicateRoutes ?cs)"
    by (simp add: generateWalkingCandidates_def)
  have 9: "generateWalkingCandidates db g orig dest m prefs = first_two_survivors ?cs"
    by (simp add: generateWalkingCandidates_def first_two_survivors_def
        deduplicateRoutes_survivors)
  have 10: "length (generateWalkingCandidates db g orig dest m prefs)
        = min 2 (card (fingerprint ` set ?cs))"
    unfolding 8 by (simp add: deduplicateRoutes_length min.commute)
  have 11: "map strategy ?cs
        = map (\<lambda>(name, pref). Some name)
            (filter (\<lambda>(name, pref). \<not> isl (calculateWalkingRoute db g orig dest m pref))
               [(''User Preference'', prefs),
                (''ASAP'', \<lparr>pref_time = 1, pref_green = 0\<rparr>),
                (''GROOT'', \<lparr>pref_time = 0, pref_green = 1\<rparr>)])"
    using walking_candidates_strategies [of db g orig dest m prefs]
    by (simp only: strategies_def)
  from first 8 9 10 11 show ?thesis by (intro conjI) blast+
qed

text \<open>
  On the demo graph the user route and the ASAP route take road 2 and the GROOT route takes
  road 1: the user route and the GROOT route are returned. On the graph with three answers
  the three candidates have the fingerprints 1,2 and 2 and 1: the user route and the ASAP
  route are returned, and the GROOT route is dropped.
\<close>

theorem generateWalkingCandidates_deduplicated_witness:
  "map strategy (generateWalkingCandidates sparse_store demo_graph west east ''2025-08'' balanced)
     = [Some ''User Preference'', Some ''GROOT'']
   \<and> map fingerprint (generateWalkingCandidates sparse_store demo_graph west east ''2025-08'' balanced)
     = [''2'', ''1'']
   \<and> distinct (map fingerprint
        (generateWalkingCandidates sparse_store demo_graph west east ''2025-08'' balanced))
   \<and> map (\<lambda>r. find (\<lambda>c. fingerprint c = fingerprint r)
               (walking_candidates sparse_store demo_graph west east ''2025-08'' balanced) = Some r)
        (generateWalkingCandidates sparse_store demo_graph west east ''2025-08'' balanced)
     = [True, True]
   \<and> map strategy (walking_candidates sparse_store three_way_graph west east ''2025-08'' balanced)
     = [Some ''User Preference'', Some ''ASAP'', Some ''GROOT'']
   \<and> map fingerprint (walking_candidates sparse_store three_way_graph west east ''2025-08'' balanced)
     = [''1,2'', ''2'', ''1'']
   \<and> map strategy (generateWalkingCandidates sparse_store three_way_graph west east ''2025-08'' balanced)
     = [Some ''User Preference'', Some ''ASAP'']
   \<and> map fingerprint (generateWalkingCandidates sparse_store three_way_graph west east ''2025-08'' balanced)
     = [''1,2'', ''2'']
   \<and> generateWalkingCandidates sparse_store three_way_graph west east ''2025-08'' balanced
     = first_two_survivors (walking_candidates sparse_store three_way_graph west east ''2025-08'' balanced)
   \<and> length (generateWalkingCandidates sparse_store three_way_graph west east ''2025-08'' balanced)
     = min 2 (card (fingerprint `
         set (walking_candidates sparse_store three_way_graph west east ''2025-08'' balanced)))"
proof -
  let ?res = "generateWalkingCandidates sparse_store demo_graph west east ''2025-08'' balanced"
  let ?P = "\<lambda>r. find (\<lambda>c. fingerprint c = fingerprint r)
               (walking_candidates sparse_store demo_graph west east ''2025-08'' balanced) = Some r"
  let ?cs3 = "walking_candidates sparse_store three_way_graph west east ''2025-08'' balanced"
  let ?res3 = "generateWalkingCandidates sparse_store three_way_graph west east ''2025-08'' balanced"
  have a: "map strategy ?res = [Some ''User Preference'', Some ''GROOT'']"
    by code_simp
  have b: "map fingerprint ?res = [''2'', ''1'']"
    by code_simp
  have a3: "map strategy ?cs3 = [Some ''User Preference'', Some ''ASAP'', Some ''GROOT'']"
    by code_simp
  have b3: "map fingerprint ?cs3 = [''1,2'', ''2'', ''1'']"
    by code_simp
  have c3: "map strategy ?res3 = [Some ''User Preference'', Some ''ASAP'']"
    by code_simp
  have d3: "map fingerprint ?res3 = [''1,2'', ''2'']"
    by code_simp
  note t = generateWalkingCandidates_deduplicated
    [of sparse_store demo_graph west east "''2025-08''" balanced]
  note t3 = generateWalkingCandidates_deduplicated
    [of sparse_store three_way_graph west east "''2025-08''" balanced]
  from t have d: "distinct (map fingerprint ?res)" by (rule conjunct1)
  from t have f: "\<forall>r \<in> set ?res. ?P r" by blast
  from t3 have e3: "?res3 = first_two_survivors ?cs3" by blast
  from t3 have f3: "length ?res3 = min 2 (card (fingerprint ` set ?cs3))" by blast
  from a obtain x y where xy: "?res = [x, y]"
    by (cases ?res; cases "tl ?res") auto
  from f have "map ?P ?res = [True, True]"
    unfolding xy by simp
  with a b d a3 b3 c3 d3 e3 f3 show ?thesis by blast
qed

text \<open>The default sort orders the ids as strings: 10 and 100 come before 2.\<close>

lemma fingerprint_order_example:
  "js_join (map string_of_int (sort_key string_of_int [2, 10, 1, -3, 100])) = ''-3,1,10,100,2''"
  by code_simp

section \<open>Path solver\<close>

lemma route_query_same_vertex:
  "pgr_dijkstra g (pref_time prefs) (pref_green prefs) month v v = [] \<Longrightarrow>
   route_query db g prefs month v v = (None, None)"
  by (simp add: route_query_def sql_sum_def)

text \<open>
  C7. When the nearest vertices of the two query points are the same vertex, for which
  \<open>pgr_dijkstra\<close> returns no row (pgRouting's answer for equal source and target), the
  walking segment between the points has no road id, distance 0 and duration 0; and the
  walking route, unless its query fails, has one segment with the empty road list and
  distance 0, and total duration 0.
\<close>

theorem equal_vertices_empty_path:
  assumes "nearest_vertex g (Some (lon orig)) (Some (lat orig)) = Some v"
    and "nearest_vertex g (Some (lon dest)) (Some (lat dest)) = Some v"
    and "pgr_dijkstra g (pref_time prefs) (pref_green prefs) month v v = []"
  shows "ws_roadIds (calculateWalkingSegment db g (geom_of_point orig) (geom_of_point dest) prefs month) = []
         \<and> ws_distance (calculateWalkingSegment db g (geom_of_point orig) (geom_of_point dest) prefs month) = Some (Num 0)
         \<and> ws_duration (calculateWalkingSegment db g (geom_of_point orig) (geom_of_point dest) prefs month) = Num 0
         \<and> (case calculateWalkingRoute db g orig dest month prefs of
               Inl e \<Rightarrow> e = QueryFailed \<and> path_query_error g (geom_of_point orig) (geom_of_point dest)
             | Inr route \<Rightarrow>
                 map roadIds (segments route) = [Some []]
                 \<and> map distance (segments route) = [Some (Num 0)]
                 \<and> route_road_ids route = []
                 \<and> totalDuration route = Num 0)"
proof -
  note q = route_query_same_vertex [OF assms(3), of db]
  have seg: "calculateWalkingSegment db g (geom_of_point orig) (geom_of_point dest) prefs month = no_walk"
    using assms(1,2) q by (simp add: calculateWalkingSegment_def geom_of_point_def)
  have route: "(case calculateWalkingRoute db g orig dest month prefs of
               Inl e \<Rightarrow> e = QueryFailed \<and> path_query_error g (geom_of_point orig) (geom_of_point dest)
             | Inr route \<Rightarrow>
                 map roadIds (segments route) = [Some []]
                 \<and> map distance (segments route) = [Some (Num 0)]
                 \<and> route_road_ids route = []
                 \<and> totalDuration route = Num 0)"
    using assms(1,2) q
    by (simp add: calculateWalkingRoute_def createWalkingRoute_def new_RoutePlan_def
          createWalkingSegment_def blank_segment_def route_road_ids_def jdiv_def js_or_def
          truthy_def walkingSpeed_def Let_def)
  from seg route show ?thesis by (simp add: no_walk_def)
qed

text \<open>The theorem on the demo graph, from the western point to itself.\<close>

theorem equal_vertices_empty_path_witness:
  "nearest_vertex demo_graph (Some (lon west)) (Some (lat west)) = Some 1
   \<and> pgr_dijkstra demo_graph (pref_time balanced) (pref_green balanced) ''2025-08'' 1 1 = []
   \<and> ws_roadIds (calculateWalkingSegment sparse_store demo_graph (geom_of_point west) (geom_of_point west) balanced ''2025-08'') = []
   \<and> ws_distance (calculateWalkingSegment sparse_store demo_graph (geom_of_point west) (geom_of_point west) balanced ''2025-08'') = Some (Num 0)"
proof -
  have 1: "nearest_vertex demo_graph (Some (lon west)) (Some (lat west)) = Some 1"
    by (simp add: demo_graph_def west_def)
  have 2: "pgr_dijkstra demo_graph (pref_time balanced) (pref_green balanced) ''2025-08'' 1 1 = []"
    by (simp add: demo_graph_def)
  from equal_vertices_empty_path [OF 1 1 2, of sparse_store] 1 2 show ?thesis by simp
qed

section \<open>Scoring\<close>

text \<open>
  C2, as stated, fails: with the weights (1/2, 1/2) the only candidate gets the total score
  1/2, not 1.
\<close>

theorem scoreBusRoutes_single_counterexample:
  "map totalScore (scoreBusRoutes [lone_route] balanced) = [Num (1/2)]
   \<and> map totalScore (scoreBusRoutes [lone_route] balanced) \<noteq> [Num 1]"
  by (simp add: scoreBusRoutes_def score_route_def timeNorm_def dgviNorm_def math_min_def math_max_def
        js_sort_def jgt_def jsub_def jadd_def jmul_def js_or_def truthy_def lone_route_def new_RoutePlan_def balanced_def Let_def)

lemma jgt_irrefl: "\<not> jgt a a"
  by (simp add: jgt_def split: jsnum.split)

text \<open>
  C2, amended. When exactly one candidate is scored, its \<open>timeNorm\<close> and its \<open>dgviNorm\<close>
  are 0, so its \<open>durationScore\<close> is 1 and its \<open>acDGVIScore\<close> is 0, and its total score
  is \<open>1 - (w_time * 0 + w_green * (1 - 0))\<close>, that is \<open>1 - w_green\<close>.
\<close>

theorem scoreBusRoutes_single:
  "timeNorm (math_min (totalDuration r) []) (math_max (totalDuration r) []) r = Num 0
   \<and> dgviNorm (math_min (js_or (totalAcDGVI r) (Num 0)) []) (math_max (js_or (totalAcDGVI r) (Num 0)) []) r = Num 0
   \<and> scoreBusRoutes [r] prefs
       = [r\<lparr>durationScore := Num 1, acDGVIScore := Num 0, totalScore := Num (1 - pref_green prefs)\<rparr>]"
  by (simp add: scoreBusRoutes_def score_route_def timeNorm_def dgviNorm_def math_min_def math_max_def
        js_sort_def jgt_irrefl jsub_def jadd_def jmul_def Let_def)

section \<open>The planner\<close>

lemma createWalkingRoute_type [simp]: "routeType (createWalkingRoute c) = walking_route"
  by (simp add: createWalkingRoute_def new_RoutePlan_def)

lemma calculateWalkingRoute_type:
  "calculateWalkingRoute db g orig dest m prefs = Inr route \<Longrightarrow> routeType route = walking_route"
  unfolding calculateWalkingRoute_def Let_def
  by (auto split: if_splits option.splits prod.splits)

lemma walking_candidates_type:
  "r \<in> set (walking_candidates db g orig dest m prefs) \<Longrightarrow> routeType r = walking_route"
  unfolding walking_candidates_def strategies_def
  by (auto split: sum.splits dest: calculateWalkingRoute_type [OF sym])

lemma generateWalkingCandidates_type:
  "r \<in> set (generateWalkingCandidates db g orig dest m prefs) \<Longrightarrow> routeType r = walking_route"
proof -
  assume "r \<in> set (generateWalkingCandidates db g orig dest m prefs)"
  then have "r \<in> set (dedup_loop [] (walking_candidates db g orig dest m prefs))"
    by (auto simp: generateWalkingCandidates_def deduplicateRoutes_def dest: in_set_takeD)
  then have "r \<in> set (walking_candidates db g orig dest m prefs)"
    using dedup_loop_subseq [of "[]" "walking_candidates db g orig dest m prefs"]
    by (auto dest: list_emb_set)
  then show ?thesis by (rule walking_candidates_type)
qed

lemma enrich_length [simp]: "length (enrichVisualizationData ts routes) = length routes"
  by (simp add: enrichVisualizationData_def)

lemma enrich_type: "r \<in> set (enrichVisualizationData ts routes) \<Longrightarrow> \<exists>r0 \<in> set routes. routeType r = routeType r0"
  by (auto simp: enrichVisualizationData_def)

lemma set_insert_by [simp]: "set (insert_by cmp x ys) = insert x (set ys)"
  by (induction ys) auto

lemma set_js_sort [simp]: "set (js_sort cmp xs) = set xs"
  by (induction xs) (auto simp: js_sort_def)

lemma length_insert_by [simp]: "length (insert_by cmp x ys) = Suc (length ys)"
  by (induction ys) auto

lemma length_js_sort [simp]: "length (js_sort cmp xs) = length xs"
  by (induction xs) (auto simp: js_sort_def)

lemma generateBusCandidates_length: "length (generateBusCandidates db g ts api orig dest t m prefs) \<le> 2"
  by (simp add: generateBusCandidates_def Let_def)

lemma generateWalkingCandidates_length: "length (generateWalkingCandidates db g orig dest m prefs) \<le> 2"
  by (simp add: generateWalkingCandidates_def)

lemma score_route_type [simp]: "routeType (score_route prefs a b c d r) = routeType r"
  by (simp add: score_route_def Let_def)

lemma scoreBusRoutes_type:
  "r \<in> set (scoreBusRoutes routes prefs) \<Longrightarrow> \<exists>r0 \<in> set routes. routeType r = routeType r0"
  by (cases routes) (auto simp: scoreBusRoutes_def Let_def)

lemma createDirectBusRoute_type [simp]: "routeType (createDirectBusRoute c) = direct_bus"
  by (simp add: createDirectBusRoute_def new_RoutePlan_def)

lemma direct_route_for_type:
  "direct_route_for db g ts os ds t md m prefs dep arr = Inr (Some route) \<Longrightarrow> routeType route = direct_bus"
  unfolding direct_route_for_def Let_def
  by (auto split: option.splits if_splits prod.splits)

lemma direct_routes_loop_type:
  "direct_routes_loop body dj oj = Inr routes \<Longrightarrow>
   (\<And>d a route. body d a = Inr (Some route) \<Longrightarrow> P route) \<Longrightarrow> \<forall>r \<in> set routes. P r"
  by (induction body dj oj arbitrary: routes rule: direct_routes_loop.induct)
     (auto split: sum.splits option.splits)

lemma findDirectRoutes_type:
  assumes "r \<in> set (findDirectRoutes db g ts os ds t md m cache prefs)"
  shows "routeType r = direct_bus"
proof -
  let ?loop = "direct_routes_loop (direct_route_for db g ts os ds t md m prefs)
             (destJourneys_of (originJourneys_of (site_departures os cache))
               (site_departures ds cache))
             (originJourneys_of (site_departures os cache))"
  from assms obtain routes where l: "?loop = Inr routes" and r: "r \<in> set routes"
    by (cases ?loop) (auto simp: findDirectRoutes_def Let_def)
  from direct_routes_loop_type [OF l, where P = "\<lambda>r. routeType r = direct_bus"] r
  show ?thesis by (blast intro: direct_route_for_type)
qed

lemma generateBusCandidates_type:
  assumes "r \<in> set (generateBusCandidates db g ts api orig dest t m prefs)"
  shows "routeType r = direct_bus"
proof -
  let ?os = "nearby_sites ts orig" and ?ds = "nearby_sites ts dest"
  let ?direct = "findDirectRoutes db g ts ?os ?ds t 3600 m
       (getBatchDepartures api (map siteId ?os @ map siteId ?ds) 1200) prefs"
  let ?top5 = "map (\<lambda>route. route\<lparr>totalAcDGVI := waiting_dgvi_of db m route\<rparr>)
       (take 5 (js_sort (\<lambda>a b. jsub (getRouteArrivalTime t a) (getRouteArrivalTime t b)) ?direct))"
  from assms have "r \<in> set (enrichVisualizationData ts (take 2 (scoreBusRoutes ?top5 prefs)))"
    by (auto simp: generateBusCandidates_def Let_def split: if_splits)
  then obtain r1 where r1: "r1 \<in> set (scoreBusRoutes ?top5 prefs)" "routeType r = routeType r1"
    by (auto dest!: enrich_type dest: in_set_takeD)
  then obtain r2 where r2: "r2 \<in> set ?top5" "routeType r1 = routeType r2"
    by (auto dest!: scoreBusRoutes_type)
  then obtain r3 where r3: "r3 \<in> set ?direct" "routeType r2 = routeType r3"
    by (auto dest: in_set_takeD)
  with r1 r2 findDirectRoutes_type [OF r3(1)] show ?thesis by simp
qed

text \<open>
  C9. \<open>planRoutes\<close> returns at most four routes, at most two of them walking routes and at
  most two of them bus routes, and the returned list is the same for every value of the
  option \<open>maxResults\<close>.
\<close>

theorem planRoutes_at_most_four:
  "length (planRoutes db g ts api t orig dest options) \<le> 4
   \<and> length (filter (\<lambda>r. routeType r = walking_route) (planRoutes db g ts api t orig dest options)) \<le> 2
   \<and> length (filter (\<lambda>r. routeType r \<noteq> walking_route) (planRoutes db g ts api t orig dest options)) \<le> 2
   \<and> planRoutes db g ts api t orig dest (options\<lparr>opt_maxResults := n\<rparr>)
       = planRoutes db g ts api t orig dest options"
proof -
  let ?m = "case opt_gviMonth options of None \<Rightarrow> ''2025-06'' | Some m \<Rightarrow> m"
  let ?p = "case opt_preferences options of
                     None \<Rightarrow> \<lparr>pref_time = 1/2, pref_green = 1/2\<rparr> | Some p \<Rightarrow> p"
  let ?w = "generateWalkingCandidates db g orig dest ?m ?p"
  let ?b = "generateBusCandidates db g ts api orig dest t ?m ?p"
  have p: "planRoutes db g ts api t orig dest options = take 2 ?w @ take 2 ?b"
    by (simp add: planRoutes_def Let_def)
  have w: "filter (\<lambda>r. routeType r = walking_route) (take 2 ?w) = take 2 ?w"
    by (auto simp: filter_id_conv dest: in_set_takeD generateWalkingCandidates_type)
  have b: "filter (\<lambda>r. routeType r = walking_route) (take 2 ?b) = []"
    by (auto simp: filter_empty_conv dest!: in_set_takeD generateBusCandidates_type)
  have w': "filter (\<lambda>r. routeType r \<noteq> walking_route) (take 2 ?w) = []"
    by (auto simp: filter_empty_conv dest!: in_set_takeD generateWalkingCandidates_type)
  have b': "filter (\<lambda>r. routeType r \<noteq> walking_route) (take 2 ?b) = take 2 ?b"
    by (auto simp: filter_id_conv dest!: in_set_takeD generateBusCandidates_type)
  have m: "planRoutes db g ts api t orig dest (options\<lparr>opt_maxResults := n\<rparr>)
       = planRoutes db g ts api t orig dest options"
    by (simp add: planRoutes_def Let_def)
  show ?thesis
    unfolding p using m [unfolded p]
    by (simp add: w b w' b' p)
qed

section \<open>One-transfer search\<close>

lemma emit_loop_bound:
  "length acc < 2 \<Longrightarrow>
   length (fst (emit_loop create est acc cs)) \<le> 2
   \<and> (\<not> snd (emit_loop create est acc cs) \<longrightarrow> length (fst (emit_loop create est acc cs)) < 2)"
proof (induction cs arbitrary: acc)
  case Nil
  then show ?case by simp
next
  case (Cons c cs)
  show ?case
  proof (cases "seconds_between (c_departureTime c) est \<ge> 60")
    case False
    with Cons show ?thesis by simp
  next
    case True
    show ?thesis
    proof (cases "create c")
      case None
      with True Cons show ?thesis by simp
    next
      case (Some r)
      show ?thesis
      proof (cases "length acc")
        case 0
        then have "length (acc @ [r]) < 2" by simp
        from Cons.IH [OF this] True Some 0 show ?thesis by simp
      next
        case (Suc k)
        with Cons.prems True Some show ?thesis by simp
      qed
    qed
  qed
qed

lemma chain_loop_bound:
  "length acc < 2 \<Longrightarrow>
   length (fst (chain_loop n ts agent ds md m cache cur est acc)) \<le> 2"
proof (induction n arbitrary: cur est acc)
  case 0
  then show ?case by simp
next
  case (Suc n)
  show ?case
  proof (cases "next_stop ts (qa_lineId agent) (qa_directionCode agent) cur")
    case None
    with Suc.prems show ?thesis by simp
  next
    case (Some nxt)
    let ?e = "emit_loop (\<lambda>conn. createTransferRoutePlan ts agent
                \<lparr>si_stop_point_id = None, si_site_id = next_site_id nxt,
                   si_stop_name = next_name nxt, si_lat = None, si_lon = None\<rparr> conn md
                (est + 90 * 1000) m) (est + 90 * 1000) acc
              (take 2 (findConnectionsFromCachedDepartures ts
                 (case next_site_id nxt of None \<Rightarrow> []
                  | Some sid \<Rightarrow> (case map_of cache sid of None \<Rightarrow> [] | Some deps \<Rightarrow> deps))
                 ds (est + 90 * 1000 + 60 * 1000) (next_site_id nxt)))"
    note b = emit_loop_bound [OF Suc.prems, of _ "est + 90 * 1000"]
    show ?thesis
    proof (cases ?e)
      case (Pair routes fin)
      with b have r: "length routes \<le> 2" "\<not> fin \<Longrightarrow> length routes < 2"
        by (metis fst_conv, metis fst_conv snd_conv)
      show ?thesis
      proof (cases fin)
        case True
        with Some Pair r Suc.prems show ?thesis
          by (simp add: Let_def)
      next
        case False
        with r have "length routes < 2" by simp
        from Suc.IH [OF this, of "next_stop_point_id nxt" "est + 90 * 1000"]
        have "length (fst (chain_loop n ts agent ds md m cache (next_stop_point_id nxt)
                 (est + 90 * 1000) routes)) \<le> 2" .
        with Some Pair False Suc.prems show ?thesis
          by (auto simp: Let_def split: prod.splits)
      qed
    qed
  qed
qed

lemma chain_loop_hops:
  "length (snd (chain_loop n ts agent ds md m cache cur est acc)) \<le> n"
proof (induction n arbitrary: cur est acc)
  case 0
  then show ?case by simp
next
  case (Suc n)
  show ?case
    using Suc.IH
    by (auto simp: Let_def split: option.splits prod.splits bool.splits
          simp del: chain_loop.simps(1)) (metis snd_conv le_SucI Suc_le_mono)+
qed

lemma findTransferChainCached_bound:
  "length (findTransferChainCached ts agent ds md m cache) \<le> 2"
  by (simp add: findTransferChainCached_def transfer_chain_def chain_loop_bound)

lemma transfer_chain_hops:
  "length (snd (transfer_chain ts agent ds md m cache)) \<le> 10"
  by (simp add: transfer_chain_def chain_loop_hops)

lemma agents_loop_bound:
  "(\<And>a. length (chain a) \<le> 2) \<Longrightarrow> length acc < 20 \<Longrightarrow>
   length (agents_loop chain acc agents) \<le> 21"
proof (induction agents arbitrary: acc)
  case Nil
  then show ?case by simp
next
  case (Cons a agents)
  from Cons.prems(1) [of a] Cons.prems(2) have "length (acc @ chain a) \<le> 21" by simp
  with Cons show ?case by (simp del: length_append)
qed

text \<open>
  What holds of the bounds of the transfer search: an agent walks to at most 10 stops and
  emits at most 2 itineraries, and the search emits at most 21.
\<close>

lemma transfer_search_bounds:
  "length (snd (transfer_chain ts agent ds md m cache)) \<le> 10
   \<and> length (findTransferChainCached ts agent ds md m cache) \<le> 2
   \<and> length (findTransferRoutes ts os ds t md m cache) \<le> 21"
  using agents_loop_bound [of "\<lambda>agent. findTransferChainCached ts agent ds md m cache" "[]"]
  by (simp add: findTransferRoutes_def findTransferChainCached_bound transfer_chain_hops)

text \<open>
  C4 fails on the demo network, where the search emits 21 itineraries: the ten agents of
  site 1 emit 1 + 9 * 2 = 19, which is below 20, and the agent of site 2 adds 2 more before
  the total is checked again.
\<close>

theorem findTransferRoutes_emits_21:
  "length (findTransferRoutes demo_transit [site_at 1 140, site_at 2 140] [site_at 30 70] 0 3600
      ''2025-08'' demo_cache) = 21"
  by code_simp

section \<open>Total duration and segment durations\<close>

text \<open>
  Walking routes and direct bus routes keep the invariant: the total duration is the sum
  of the segment durations (for direct routes, on a road table without negative lengths).
  A transfer route does not: \<open>findTransferChainCached\<close> describes the stop where the first
  ride arrives by its site id and name only, so the stop has no stop point id and no
  coordinates; the distance of the intra-site walk is \<open>NaN\<close>, and with it the waiting
  time and the total duration.
\<close>

lemma within_one_second_refl [simp]: "within_one_second (Num x) (Num x)"
  by (simp add: within_one_second_def jsub_def)

lemma walking_route_duration_sum:
  "calculateWalkingRoute db g orig dest m prefs = Inr r \<Longrightarrow>
   within_one_second (segment_duration_sum r) (totalDuration r)"
  unfolding calculateWalkingRoute_def Let_def
  by (auto simp: createWalkingRoute_def new_RoutePlan_def segment_duration_sum_def
        createWalkingSegment_def blank_segment_def jdiv_def jadd_def walkingSpeed_def
        split: if_splits option.splits prod.splits)

lemma sql_sum_nonneg:
  assumes "sql_sum vs = Some s" and "\<forall>v \<in> set vs. case v of None \<Rightarrow> True | Some x \<Rightarrow> 0 \<le> x"
  shows "0 \<le> s"
proof -
  have "0 \<le> sum_list [x. Some x \<leftarrow> vs]"
    using assms(2) by (intro sum_list_nonneg) (auto split: option.splits)
  with assms(1) show ?thesis
    by (simp add: sql_sum_def Let_def split: if_splits)
qed

lemma route_query_length_nonneg:
  assumes "lengths_nonneg db" and "route_query db g prefs m s t = (rids, Some L)"
  shows "0 \<le> L"
proof -
  let ?segs = "[(e, len). e \<leftarrow> pgr_dijkstra g (pref_time prefs) (pref_green prefs) m s t,
                       Some len \<leftarrow> [map_of (roads db) e]]"
  have "case v of None \<Rightarrow> True | Some x \<Rightarrow> 0 \<le> x" if "v \<in> set (map snd ?segs)" for v
  proof -
    from that obtain e where "map_of (roads db) e = Some v"
      by (auto split: option.splits)
    then have "(e, v) \<in> set (roads db)" by (rule map_of_SomeD)
    with assms(1) show ?thesis by (force simp: lengths_nonneg_def)
  qed
  then have "\<forall>v \<in> set (map snd ?segs). case v of None \<Rightarrow> True | Some x \<Rightarrow> 0 \<le> x"
    by blast
  moreover from assms(2) have "sql_sum (map snd ?segs) = Some L"
    by (simp add: route_query_def Let_def)
  ultimately show ?thesis by (rule sql_sum_nonneg [rotated])
qed

lemma walkingSpeed_pos: "0 < walkingSpeed"
  by (simp add: walkingSpeed_def)

lemma jdiv_walkingSpeed: "jdiv (Num a) (Num walkingSpeed) = Num (a / walkingSpeed)"
  by (simp add: jdiv_def walkingSpeed_def)

lemma calculateWalkingSegment_duration:
  assumes "lengths_nonneg db"
  shows "\<exists>x. ws_duration (calculateWalkingSegment db g a b prefs m) = Num x \<and> 0 \<le> x"
proof -
  have "\<exists>x. ws_duration no_walk = Num x \<and> 0 \<le> x"
    by (simp add: no_walk_def)
  moreover have "\<exists>x. jdiv (case map_option Num tl of None \<Rightarrow> Num 0 | Some d \<Rightarrow> d) (Num walkingSpeed) = Num x \<and> 0 \<le> x"
    if "route_query db g prefs m s t = (rids, tl)" for s t rids tl
    using route_query_length_nonneg [OF assms, of g prefs m s t rids] that
    using walkingSpeed_pos by (cases tl) (auto simp: jdiv_walkingSpeed)
  ultimately show ?thesis
    unfolding calculateWalkingSegment_def Let_def
    by (auto split: option.splits prod.splits simp del: ex_simps)
qed

lemma createDirectBusRoute_duration_sum:
  assumes "walkingToDeparture c = Num a" "0 \<le> a" "busRideDuration c = Num b"
    and "walkingFromArrival c = Num d" "0 \<le> d" "dr_totalDuration c = Num (a + b + d)"
  shows "within_one_second (segment_duration_sum (createDirectBusRoute c))
           (totalDuration (createDirectBusRoute c))"
proof -
  have "segment_duration_sum (createDirectBusRoute c) = Num (a + b + d)"
    using assms
    by (auto simp: createDirectBusRoute_def new_RoutePlan_def segment_duration_sum_def
          createWalkingSegment_def createWaitingSegment_def createBusRideSegment_def
          blank_segment_def jgt_def jadd_def js_or_def truthy_def)
  moreover have "totalDuration (createDirectBusRoute c) = Num (a + b + d)"
    using assms(6) by (simp add: createDirectBusRoute_def new_RoutePlan_def)
  ultimately show ?thesis by simp
qed

lemma direct_route_duration_sum:
  assumes nn: "lengths_nonneg db"
    and r: "direct_route_for db g ts os ds t md m prefs dep arr = Inr (Some r)"
  shows "within_one_second (segment_duration_sum r) (totalDuration r)"
proof -
  have "within_one_second (segment_duration_sum (createDirectBusRoute c))
           (totalDuration (createDirectBusRoute c))"
    if "walkingToDeparture c = ws_duration (calculateWalkingSegment db g p1 p2 prefs m)"
      and "walkingFromArrival c = ws_duration (calculateWalkingSegment db g p3 p4 prefs m)"
      and "busRideDuration c = Num b"
      and "dr_totalDuration c = jadd (jadd (walkingToDeparture c) (Num b)) (walkingFromArrival c)"
    for c p1 p2 p3 p4 b
  proof -
    from calculateWalkingSegment_duration [OF nn, of g p1 p2 prefs m] that(1)
    obtain a where a: "walkingToDeparture c = Num a" "0 \<le> a" by auto
    from calculateWalkingSegment_duration [OF nn, of g p3 p4 prefs m] that(2)
    obtain d where d: "walkingFromArrival c = Num d" "0 \<le> d" by auto
    from that(4) a d have "dr_totalDuration c = Num (a + b + d)"
      by (simp add: jadd_def)
    with a d that(3) show ?thesis
      by (intro createDirectBusRoute_duration_sum)
  qed
  with r show ?thesis
    unfolding direct_route_for_def Let_def
    by (auto split: option.splits if_splits)
qed

lemma createTransferRoutePlan_NaN:
  assumes id: "si_stop_point_id nextStopSite = None" and la: "si_lat nextStopSite = None"
    and st: "\<forall>i s. stop_points ts i = Some s \<longrightarrow> si_stop_point_id s \<noteq> None"
    and r: "createTransferRoutePlan ts agent nextStopSite conn md t m = Some r"
  shows "totalDuration r = NaN"
proof -
  from r obtain s where s: "stop_points ts (c_departureStopId conn) = Some s"
    by (cases "stop_points ts (c_departureStopId conn)")
       (simp_all add: createTransferRoutePlan_def)
  from st s have "si_stop_point_id s \<noteq> None" by blast
  with id have ne: "si_stop_point_id nextStopSite \<noteq> si_stop_point_id s"
    by (cases "si_stop_point_id s") simp_all
  have d: "calculateStopPointDistance nextStopSite s = NaN"
    using la by (simp add: calculateStopPointDistance_def)
  from r s ne d show ?thesis
    unfolding createTransferRoutePlan_def Let_def
    by (auto simp: createTransferRoute_def new_RoutePlan_def jdiv_def jsub_def jmax_def
          jadd_def jgt_def split: option.splits if_splits)
qed

text \<open>
  So every itinerary that \<open>findTransferChainCached\<close> emits has the total duration
  \<open>NaN\<close>, on every store whose stop points carry their id.
\<close>

lemma emit_loop_all:
  "\<forall>r \<in> set acc. P r \<Longrightarrow> (\<And>c r. create c = Some r \<Longrightarrow> P r) \<Longrightarrow>
   \<forall>r \<in> set (fst (emit_loop create est acc cs)). P r"
proof (induction cs arbitrary: acc)
  case Nil
  then show ?case by simp
next
  case (Cons c cs)
  show ?case
  proof (cases "create c")
    case None
    with Cons show ?thesis by simp
  next
    case (Some r)
    with Cons.prems have "\<forall>x \<in> set (acc @ [r]). P x" by auto
    from Cons.IH [OF this Cons.prems(2)] this Cons.IH [OF Cons.prems] Some show ?thesis
      by (simp del: set_append)
  qed
qed

lemma chain_loop_NaN:
  assumes st: "\<forall>i s. stop_points ts i = Some s \<longrightarrow> si_stop_point_id s \<noteq> None"
  shows "\<forall>r \<in> set acc. totalDuration r = NaN \<Longrightarrow>
         \<forall>r \<in> set (fst (chain_loop n ts agent ds md m cache cur est acc)). totalDuration r = NaN"
proof (induction n arbitrary: cur est acc)
  case 0
  then show ?case by simp
next
  case (Suc n)
  show ?case
  proof (cases "next_stop ts (qa_lineId agent) (qa_directionCode agent) cur")
    case None
    with Suc.prems show ?thesis by simp
  next
    case (Some nxt)
    let ?nss = "\<lparr>si_stop_point_id = None, si_site_id = next_site_id nxt,
                   si_stop_name = next_name nxt, si_lat = None, si_lon = None\<rparr>"
    let ?e = "emit_loop (\<lambda>conn. createTransferRoutePlan ts agent ?nss conn md
                (est + 90 * 1000) m) (est + 90 * 1000) acc
              (take 2 (findConnectionsFromCachedDepartures ts
                 (case next_site_id nxt of None \<Rightarrow> []
                  | Some sid \<Rightarrow> (case map_of cache sid of None \<Rightarrow> [] | Some deps \<Rightarrow> deps))
                 ds (est + 90 * 1000 + 60 * 1000) (next_site_id nxt)))"
    have e: "\<forall>r \<in> set (fst ?e). totalDuration r = NaN"
      by (rule emit_loop_all [OF Suc.prems])
         (rule createTransferRoutePlan_NaN [OF _ _ st], simp_all)
    show ?thesis
    proof (cases ?e)
      case (Pair routes fin)
      with e have r: "\<forall>r \<in> set routes. totalDuration r = NaN" by simp
      from Suc.IH [OF r, of "next_stop_point_id nxt" "est + 90 * 1000"] r Some Pair Suc.prems
      show ?thesis
        by (cases fin) (auto simp: Let_def split: prod.splits)
    qed
  qed
qed

lemma findTransferChainCached_NaN:
  assumes "\<forall>i s. stop_points ts i = Some s \<longrightarrow> si_stop_point_id s \<noteq> None"
    and "r \<in> set (findTransferChainCached ts agent ds md m cache)"
  shows "totalDuration r = NaN \<and> \<not> within_one_second (segment_duration_sum r) (totalDuration r)"
proof -
  from chain_loop_NaN [OF assms(1), of "[]"] assms(2) have "totalDuration r = NaN"
    by (simp add: findTransferChainCached_def transfer_chain_def)
  then show ?thesis
    by (simp add: within_one_second_def jsub_def split: jsnum.splits)
qed

text \<open>
  C3 fails on the demo network: the agent gets two transfer itineraries; the waiting
  segment of each has the duration \<open>NaN\<close>, and so have the sum of the segment durations
  and the total duration, which therefore do not agree within one second.
\<close>

theorem transfer_route_duration_NaN:
  "map routeType (findTransferChainCached demo_transit demo_agent [site_at 30 70] 3600
       ''2025-08'' demo_cache) = [transfer_bus, transfer_bus]
   \<and> map (map duration \<circ> segments) (findTransferChainCached demo_transit demo_agent
       [site_at 30 70] 3600 ''2025-08'' demo_cache)
     = [[Num 100, Num 0, Num 90, NaN, Num 600, Num 50], [Num 100, Num 0, Num 90, NaN, Num 600, Num 50]]
   \<and> map totalDuration (findTransferChainCached demo_transit demo_agent [site_at 30 70] 3600
       ''2025-08'' demo_cache) = [NaN, NaN]
   \<and> map (\<lambda>r. within_one_second (segment_duration_sum r) (totalDuration r))
       (findTransferChainCached demo_transit demo_agent [site_at 30 70] 3600 ''2025-08'' demo_cache)
     = [False, False]"
  by code_simp

end
